theory Spec2Isabelle
  imports Complex_Main
begin

section \<open>Error taxonomy (utils/errors)\<close>

datatype WebcamErrorCode =
    PERMISSION_DENIED
  | DEVICE_NOT_FOUND
  | DEVICE_BUSY
  | OVERCONSTRAINED
  | CONSTRAINT_ERROR
  | STREAM_FAILED
  | STREAM_ERROR
  | CAPTURE_FAILED
  | INVALID_CONFIG
  | VIDEO_ELEMENT_NOT_SET
  | DEVICES_ERROR
  | UNKNOWN_ERROR

text \<open>
  A JavaScript \<^verbatim>\<open>catch\<close> clause receives any value. \<open>JsError name message\<close> is an
  instance of \<^verbatim>\<open>Error\<close> (a DOMException, a TypeError, a plain Error);
  \<open>WebcamError message code originalError\<close> is the library's own subclass, whose
  \<^verbatim>\<open>name\<close> is the string WebcamError; \<open>NonError name\<close> is a thrown value that is
  not an instance of \<^verbatim>\<open>Error\<close>, with its \<^verbatim>\<open>name\<close> property when it has one.
\<close>

datatype thrown =
    JsError string string
  | WebcamError string WebcamErrorCode "thrown option"
  | NonError "string option"

fun isError :: "thrown \<Rightarrow> bool" where
  "isError (JsError n m) = True"
| "isError (WebcamError m c orig) = True"
| "isError (NonError n) = False"

fun errorName :: "thrown \<Rightarrow> string option" where
  "errorName (JsError n m) = Some n"
| "errorName (WebcamError m c orig) = Some ''WebcamError''"
| "errorName (NonError n) = n"

fun isWebcamError :: "thrown \<Rightarrow> bool" where
  "isWebcamError (WebcamError m c orig) = True"
| "isWebcamError e = False"

fun errorCode :: "thrown \<Rightarrow> WebcamErrorCode option" where
  "errorCode (WebcamError m c orig) = Some c"
| "errorCode e = None"

fun originalError :: "thrown \<Rightarrow> thrown option" where
  "originalError (WebcamError m c orig) = orig"
| "originalError e = None"

section \<open>Platform media objects\<close>

datatype TrackKind = VideoKind | AudioKind

record MediaStreamTrack =
  trackId :: nat
  kind :: TrackKind
  settingsWidth :: "int option"
  settingsHeight :: "int option"

record MediaStream =
  tracks :: "MediaStreamTrack list"

definition getTracks :: "MediaStream \<Rightarrow> MediaStreamTrack list" where
  "getTracks s = tracks s"

definition getVideoTracks :: "MediaStream \<Rightarrow> MediaStreamTrack list" where
  "getVideoTracks s = filter (\<lambda>t. kind t = VideoKind) (tracks s)"

text \<open>
  The pixel counts of a resolution are modelled as integers; a width or height that is
  missing at run time (\<^verbatim>\<open>undefined\<close>) is \<open>None\<close>.
\<close>

record Resolution =
  label :: string
  width :: "int option"
  height :: "int option"

text \<open>
  The object that \<^verbatim>\<open>Stream.startStream\<close> returns:
  \<^verbatim>\<open>{ stream, usedResolution }\<close>.
\<close>

record StartResult =
  stream :: MediaStream
  usedResolution :: "Resolution option"

text \<open>
  The video element. \<open>srcObject\<close> holds what \<^verbatim>\<open>Webcam.start\<close> assigns to it, which
  is the object returned by \<^verbatim>\<open>startStream\<close>. \<open>currentFrame\<close> identifies the frame the
  element shows, so that a drawing of the element can be told from an earlier one.
\<close>

record HTMLVideoElement =
  srcObject :: "StartResult option"
  styleTransform :: string
  readyState :: nat
  videoWidth :: nat
  videoHeight :: nat
  currentFrame :: nat

section \<open>Configuration and constraints (types/index.ts)\<close>

text \<open>
  \<^verbatim>\<open>preferredResolutions?: Resolution | Resolution[]\<close>: absent, one resolution, or an
  array. \<open>deviceId\<close> is \<^verbatim>\<open>config.deviceInfo?.deviceId\<close>. A \<open>WebcamConfiguration\<close> is
  the configuration as the code reads it: a property that is missing or undefined reads
  as \<open>None\<close> (\<open>Unspecified\<close> for the resolutions).
\<close>

datatype PreferredResolutions =
    Unspecified
  | Single Resolution
  | Several "Resolution list"

record WebcamConfiguration =
  deviceId :: "string option"
  preferredResolutions :: PreferredResolutions
  videoElement :: "HTMLVideoElement option"
  enableAudio :: "bool option"
  enableMirror :: "bool option"

text \<open>
  The object handed to \<^verbatim>\<open>start\<close> is spread over the earlier configuration, and a
  spread copies every key the object has, also a key whose value is undefined. So the
  argument is modelled key by key: \<open>Absent\<close> when the object has no such key,
  \<open>Present v\<close> when it has the key with value \<open>v\<close>, where \<open>v\<close> is the value as the
  code reads it (\<open>None\<close> or \<open>Unspecified\<close> for undefined).
\<close>

datatype 'a Key = Absent | Present 'a

record ConfigLiteral =
  deviceInfoKey :: "string option Key"
  preferredResolutionsKey :: "PreferredResolutions Key"
  videoElementKey :: "HTMLVideoElement option Key"
  enableAudioKey :: "bool option Key"
  enableMirrorKey :: "bool option Key"

datatype 'a Constrain = Exact 'a | Ideal 'a

record MediaTrackConstraints =
  c_deviceId :: "string Constrain option"
  c_width :: "int Constrain option"
  c_height :: "int Constrain option"

record MediaStreamConstraints =
  video :: MediaTrackConstraints
  audio :: bool

datatype FocusMode = Manual | SingleShot | Continuous | Auto | NoFocus

datatype MediaTrackConstraintSet =
    TorchPatch bool
  | ZoomPatch real
  | FocusPatch FocusMode

text \<open>
  The platform behind \<^verbatim>\<open>navigator.mediaDevices\<close> is a parameter of the model.
  \<open>respond\<close> says, for each constraint set, whether \<^verbatim>\<open>getUserMedia\<close> rejects (with
  which value) or which tracks the new stream has; \<open>applyTrack\<close> says whether
  \<^verbatim>\<open>track.applyConstraints\<close> rejects; \<open>srcObjectSetter\<close> says what the video element
  does when \<^verbatim>\<open>start\<close> assigns the object returned by \<^verbatim>\<open>startStream\<close> to its
  \<^verbatim>\<open>srcObject\<close>: it stores the value (\<open>None\<close>) or throws. A browser throws a
  TypeError for a value that is not a media stream; a stand-in element stores it.
  The \<open>World\<close> records what the program did to the platform: every
  \<^verbatim>\<open>getUserMedia\<close> call in order, every \<^verbatim>\<open>applyConstraints\<close> call in order, and
  which tracks are live. Each successful \<^verbatim>\<open>getUserMedia\<close> creates tracks with fresh
  identities.
\<close>

record Platform =
  respond :: "MediaStreamConstraints \<Rightarrow> thrown + MediaStreamTrack list"
  applyTrack :: "MediaStreamTrack \<Rightarrow> MediaTrackConstraintSet \<Rightarrow> thrown option"
  srcObjectSetter :: "StartResult \<Rightarrow> thrown option"
  addEventListenerSupported :: bool
  removeEventListenerSupported :: bool

record World =
  gumCalls :: "MediaStreamConstraints list"
  applyCalls :: "(nat \<times> MediaTrackConstraintSet) list"
  liveTracks :: "nat set"
  nextTrackId :: nat

definition newStream :: "nat \<Rightarrow> MediaStreamTrack list \<Rightarrow> MediaStream" where
  "newStream n ts = \<lparr>tracks = map2 (\<lambda>i t. t\<lparr>trackId := i\<rparr>) [n ..< n + length ts] ts\<rparr>"

definition getUserMedia ::
  "Platform \<Rightarrow> MediaStreamConstraints \<Rightarrow> World \<Rightarrow> (thrown + MediaStream) \<times> World" where
  "getUserMedia p constraints w =
     (case respond p constraints of
        Inl e \<Rightarrow> (Inl e, w\<lparr>gumCalls := gumCalls w @ [constraints]\<rparr>)
      | Inr ts \<Rightarrow>
          (Inr (newStream (nextTrackId w) ts),
           w\<lparr>gumCalls := gumCalls w @ [constraints],
             liveTracks := liveTracks w \<union> {nextTrackId w ..< nextTrackId w + length ts},
             nextTrackId := nextTrackId w + length ts\<rparr>))"

definition stopTracks :: "MediaStreamTrack list \<Rightarrow> World \<Rightarrow> World" where
  "stopTracks ts w = w\<lparr>liveTracks := liveTracks w - set (map trackId ts)\<rparr>"

section \<open>Stream (core/stream.ts)\<close>

text \<open>
  The private methods \<^verbatim>\<open>_buildConstraints\<close> and \<^verbatim>\<open>_handleStartError\<close> keep their
  names without the leading underscore. Every \<^verbatim>\<open>await\<close> is taken in program order.
\<close>

record Stream =
  activeStream :: "MediaStream option"

text \<open>\<^verbatim>\<open>!n\<close> for a number: true for a missing value and for zero.\<close>

definition falsy :: "int option \<Rightarrow> bool" where
  "falsy n = (n = None \<or> n = Some 0)"

definition invalidResolutionError :: thrown where
  "invalidResolutionError =
     WebcamError ''Invalid resolution: width and height must be specified'' INVALID_CONFIG None"

fun validateResolutions :: "Resolution list \<Rightarrow> thrown option" where
  "validateResolutions [] = None"
| "validateResolutions (res # rest) =
     (if falsy (width res) \<or> falsy (height res) then Some invalidResolutionError
      else validateResolutions rest)"

definition deviceConstraint :: "WebcamConfiguration \<Rightarrow> string Constrain option" where
  "deviceConstraint config =
     (case deviceId config of
        None \<Rightarrow> None
      | Some d \<Rightarrow> if d = [] then None else Some (Exact d))"

definition audioFlag :: "WebcamConfiguration \<Rightarrow> bool" where
  "audioFlag config = (case enableAudio config of None \<Rightarrow> False | Some b \<Rightarrow> b)"

definition exactFor :: "WebcamConfiguration \<Rightarrow> Resolution \<Rightarrow> MediaStreamConstraints" where
  "exactFor config res =
     \<lparr>video = \<lparr>c_deviceId = deviceConstraint config,
               c_width = map_option Exact (width res),
               c_height = map_option Exact (height res)\<rparr>,
      audio = audioFlag config\<rparr>"

definition DEFAULT_RESOLUTION :: "int \<times> int" where
  "DEFAULT_RESOLUTION = (1280, 720)"

definition buildConstraints :: "WebcamConfiguration \<Rightarrow> thrown + MediaStreamConstraints" where
  "buildConstraints config =
     (case (case preferredResolutions config of
              Unspecified \<Rightarrow> None
            | Single res \<Rightarrow> validateResolutions [res]
            | Several resolutions \<Rightarrow> validateResolutions resolutions) of
        Some e \<Rightarrow> Inl e
      | None \<Rightarrow>
          (case preferredResolutions config of
             Unspecified \<Rightarrow>
               Inr \<lparr>video = \<lparr>c_deviceId = deviceConstraint config,
                              c_width = Some (Ideal (fst DEFAULT_RESOLUTION)),
                              c_height = Some (Ideal (snd DEFAULT_RESOLUTION))\<rparr>,
                    audio = audioFlag config\<rparr>
           | Single res \<Rightarrow> Inr (exactFor config res)
           | Several [] \<Rightarrow>
               Inl (JsError ''TypeError'' ''Cannot read properties of undefined'')
           | Several (res # rest) \<Rightarrow> Inr (exactFor config res)))"

definition handleStartError :: "thrown \<Rightarrow> thrown" where
  "handleStartError error =
     (if errorName error = Some ''NotAllowedError''
        then WebcamError ''Camera access denied'' PERMISSION_DENIED (Some error)
      else if errorName error = Some ''NotFoundError''
        then WebcamError ''Camera device not found'' DEVICE_NOT_FOUND (Some error)
      else if errorName error = Some ''NotReadableError''
        then WebcamError ''Camera is already in use'' DEVICE_BUSY (Some error)
      else if errorName error = Some ''OverconstrainedError''
        then WebcamError ''Camera constraints not satisfied'' OVERCONSTRAINED (Some error)
      else WebcamError ''Failed to start camera'' UNKNOWN_ERROR (Some error))"

text \<open>\<^verbatim>\<open>error instanceof Error ? error : new Error("Failed to get media stream")\<close>\<close>

definition asError :: "thrown \<Rightarrow> thrown" where
  "asError error =
     (if isError error then error else JsError ''Error'' ''Failed to get media stream'')"

text \<open>
  The loop of \<^verbatim>\<open>startStream\<close> over the array. The accumulator is \<^verbatim>\<open>lastError\<close>; the
  result is the stream and the resolution that worked, or the last error when the array
  is exhausted.
\<close>

fun tryResolutions ::
  "Platform \<Rightarrow> WebcamConfiguration \<Rightarrow> Resolution list \<Rightarrow> thrown option \<Rightarrow> World \<Rightarrow>
     (thrown option + MediaStream \<times> Resolution) \<times> World" where
  "tryResolutions p config [] lastError w = (Inl lastError, w)"
| "tryResolutions p config (resolution # rest) lastError w =
     (case buildConstraints (config\<lparr>preferredResolutions := Single resolution\<rparr>) of
        Inl error \<Rightarrow> tryResolutions p config rest (Some (asError error)) w
      | Inr constraints \<Rightarrow>
          (case getUserMedia p constraints w of
             (Inl error, w') \<Rightarrow> tryResolutions p config rest (Some (asError error)) w'
           | (Inr s, w') \<Rightarrow> (Inr (s, resolution), w')))"

definition startStream ::
  "Platform \<Rightarrow> WebcamConfiguration \<Rightarrow> Stream \<Rightarrow> World \<Rightarrow>
     (thrown + StartResult) \<times> Stream \<times> World" where
  "startStream p config st w =
     (case preferredResolutions config of
        Several resolutions \<Rightarrow>
          (case tryResolutions p config resolutions None w of
             (Inr (s, used), w') \<Rightarrow>
               (Inr \<lparr>stream = s, usedResolution = Some used\<rparr>,
                st\<lparr>activeStream := Some s\<rparr>, w')
           | (Inl lastError, w') \<Rightarrow>
               (Inl (handleStartError
                      (case lastError of
                         Some e \<Rightarrow> e
                       | None \<Rightarrow> JsError ''Error'' ''No resolution worked'')),
                st, w'))
      | single \<Rightarrow>
          (case buildConstraints config of
             Inl error \<Rightarrow> (Inl (handleStartError error), st, w)
           | Inr constraints \<Rightarrow>
               (case getUserMedia p constraints w of
                  (Inl error, w') \<Rightarrow> (Inl (handleStartError error), st, w')
                | (Inr s, w') \<Rightarrow>
                    (Inr \<lparr>stream = s,
                          usedResolution =
                            (case single of Single res \<Rightarrow> Some res | other \<Rightarrow> None)\<rparr>,
                     st\<lparr>activeStream := Some s\<rparr>, w'))))"

definition stopStream :: "Stream \<Rightarrow> World \<Rightarrow> Stream \<times> World" where
  "stopStream st w =
     (case activeStream st of
        None \<Rightarrow> (st, w)
      | Some s \<Rightarrow> (st\<lparr>activeStream := None\<rparr>, stopTracks (getTracks s) w))"

text \<open>\<^verbatim>\<open>this.activeStream.getVideoTracks()[0]\<close>: the first video track, if any.\<close>

definition firstVideoTrack :: "MediaStream \<Rightarrow> MediaStreamTrack option" where
  "firstVideoTrack s = (case getVideoTracks s of [] \<Rightarrow> None | t # ts \<Rightarrow> Some t)"

definition applyConstraints ::
  "Platform \<Rightarrow> MediaTrackConstraintSet \<Rightarrow> Stream \<Rightarrow> World \<Rightarrow> thrown option \<times> World" where
  "applyConstraints p constraints st w =
     (case activeStream st of
        None \<Rightarrow>
          (Some (WebcamError ''No active stream to apply constraints'' STREAM_ERROR None), w)
      | Some s \<Rightarrow>
          (case firstVideoTrack s of
             None \<Rightarrow>
               (Some (WebcamError ''No video track found in active stream'' STREAM_ERROR None),
                w)
           | Some track \<Rightarrow>
               (let w' = w\<lparr>applyCalls := applyCalls w @ [(trackId track, constraints)]\<rparr> in
                case applyTrack p track constraints of
                  None \<Rightarrow> (None, w')
                | Some error \<Rightarrow>
                    (if isError error \<and> errorName error = Some ''OverconstrainedError''
                     then (Some (WebcamError
                                   ''Cannot apply constraints: not supported by device''
                                   CONSTRAINT_ERROR (Some error)), w')
                     else (Some (WebcamError ''Failed to apply constraints''
                                   STREAM_ERROR (Some error)), w')))))"

section \<open>Capture (core/capture.ts)\<close>

text \<open>
  A JavaScript number is modelled by the real number it denotes. Comparison,
  \<^verbatim>\<open>Math.max\<close>, \<^verbatim>\<open>Math.min\<close> and \<^verbatim>\<open>Math.floor\<close> are exact on such numbers; the
  product of two numbers is rounded by the machine, and is taken from the platform
  (\<open>multiply\<close> below) instead of being computed in the reals. A numeric literal stands
  for the number the machine reads it as (\<open>tenth\<close> below for \<^verbatim>\<open>0.1\<close>). The values
  NaN and infinity are outside the model.
  The options of the three capture methods extend one base interface; the model uses a
  single record with every field optional. The \<^verbatim>\<open>timestamp\<close> of a result is omitted.
\<close>

record CropRegion =
  x :: real
  y :: real
  width :: real
  height :: real

record CaptureOptions =
  scale :: "real option"
  mirror :: "bool option"
  crop :: "CropRegion option"
  imageType :: "string option"
  quality :: "real option"
  includeBase64 :: "bool option"

text \<open>
  A canvas has a size and pixels. Of the pixels the model keeps which frame was last
  drawn on the canvas (\<open>None\<close> for a canvas that is blank: a new one, or one whose
  width or height has just been assigned).
\<close>

record Canvas =
  width :: int
  height :: int
  painted :: "nat option"

datatype Transform = Transform real real real real real real

record Context2D =
  transform :: Transform

text \<open>
  An \<^verbatim>\<open>ImageData\<close> object is a reference: \<open>bufferId\<close> is its identity, so two results
  hold the same object exactly when their \<open>bufferId\<close> agree. Its pixels are kept in the
  page (\<open>pixels\<close> below), under that identity.
\<close>

record ImageData =
  bufferId :: nat
  width :: int
  height :: int

record CaptureImageDataResult =
  imageData :: ImageData
  width :: int
  height :: int

record CaptureImageResult =
  blob :: nat
  url :: nat
  base64 :: "nat option"
  width :: int
  height :: int
  mimeType :: string

record CaptureImageBitmapResult =
  imageBitmap :: nat
  width :: int
  height :: int

text \<open>
  The canvas side of the platform is a parameter: the machine product of two numbers,
  whether \<^verbatim>\<open>getContext("2d")\<close> yields a context, and whether \<^verbatim>\<open>drawImage\<close>,
  \<^verbatim>\<open>getImageData\<close>, \<^verbatim>\<open>toBlob\<close>, the \<^verbatim>\<open>FileReader\<close> and \<^verbatim>\<open>createImageBitmap\<close>
  fail. \<open>Dom\<close> is the part of the page the capture engine changes: the allocation
  counter for new objects, the object URLs not yet revoked, and for each
  \<^verbatim>\<open>ImageData\<close> object the frame its pixels show.
\<close>

record Canvas2D =
  multiply :: "real \<Rightarrow> real \<Rightarrow> real"
  getContextOk :: bool
  drawImage :: "thrown option"
  getImageData :: "int \<Rightarrow> int \<Rightarrow> thrown option"
  toBlobOk :: bool
  readAsDataURL :: "thrown option"
  createImageBitmap :: "thrown option"

record Dom =
  nextObject :: nat
  objectURLs :: "nat set"
  pixels :: "nat \<Rightarrow> nat option"

text \<open>The fields of the class; \<open>context2d\<close> is the field \<^verbatim>\<open>context\<close>.\<close>

record Capture =
  canvas :: "Canvas option"
  context2d :: "Context2D option"
  reusableImageData :: "ImageData option"
  cachedDimensions :: "int \<times> int"
  cachedScale :: real
  cachedMirror :: bool
  mirrorCanvas :: "Canvas option"
  mirrorContext :: "Context2D option"

text \<open>\<^verbatim>\<open>document.createElement("canvas")\<close>: a blank canvas of the default size.\<close>

definition createCanvas :: Canvas where
  "createCanvas = \<lparr>Canvas.width = 300, Canvas.height = 150, painted = None\<rparr>"

definition identityTransform :: Transform where
  "identityTransform = Transform 1 0 0 1 0 0"

definition getContext :: "Canvas2D \<Rightarrow> Context2D option" where
  "getContext cp =
     (if getContextOk cp then Some \<lparr>transform = identityTransform\<rparr> else None)"

text \<open>The constructor: it throws when no drawing context can be created.\<close>

definition newCapture :: "Canvas2D \<Rightarrow> thrown + Capture" where
  "newCapture cp =
     (case getContext cp of
        None \<Rightarrow> Inl (WebcamError ''Failed to create canvas context'' UNKNOWN_ERROR None)
      | Some ctx \<Rightarrow>
          Inr \<lparr>canvas = Some createCanvas, context2d = Some ctx, reusableImageData = None,
               cachedDimensions = (0, 0), cachedScale = 1, cachedMirror = False,
               mirrorCanvas = None, mirrorContext = None\<rparr>)"

text \<open>
  The numbers that the literals \<^verbatim>\<open>0.1\<close> and \<^verbatim>\<open>0.92\<close> denote in 64-bit binary
  floating point: the nearest representable numbers, written as fractions.
\<close>

definition tenth :: real where
  "tenth = 3602879701896397 / 36028797018963968"

definition defaultQuality :: real where
  "defaultQuality = 8286623314361713 / 9007199254740992"

text \<open>
  \<^verbatim>\<open>options.quality !== undefined ? Math.max(0, Math.min(1, options.quality)) : 0.92\<close>;
  the value is handed to \<^verbatim>\<open>toBlob\<close> only.
\<close>

definition qualityOf :: "CaptureOptions \<Rightarrow> real" where
  "qualityOf options =
     (case quality options of None \<Rightarrow> defaultQuality | Some q \<Rightarrow> max 0 (min 1 q))"

definition notReadyError :: thrown where
  "notReadyError =
     WebcamError ''Video element is not ready for capture'' VIDEO_ELEMENT_NOT_SET None"

definition drawFailed :: "thrown \<Rightarrow> thrown" where
  "drawFailed e = WebcamError ''Failed to draw video to canvas'' CAPTURE_FAILED (Some e)"

definition nullContextError :: thrown where
  "nullContextError = JsError ''TypeError'' ''Cannot read properties of null''"

text \<open>
  \<^verbatim>\<open>options.scale !== undefined ? Math.max(0.1, Math.min(2, options.scale)) : 1.0\<close>
\<close>

definition scaleOf :: "CaptureOptions \<Rightarrow> real" where
  "scaleOf options = (case scale options of None \<Rightarrow> 1 | Some s \<Rightarrow> max tenth (min 2 s))"

definition mirrorOf :: "CaptureOptions \<Rightarrow> bool" where
  "mirrorOf options = (case mirror options of None \<Rightarrow> False | Some m \<Rightarrow> m)"

definition sourceWidth :: "HTMLVideoElement \<Rightarrow> CaptureOptions \<Rightarrow> real" where
  "sourceWidth v options =
     (case crop options of Some c \<Rightarrow> CropRegion.width c | None \<Rightarrow> real (videoWidth v))"

definition sourceHeight :: "HTMLVideoElement \<Rightarrow> CaptureOptions \<Rightarrow> real" where
  "sourceHeight v options =
     (case crop options of Some c \<Rightarrow> CropRegion.height c | None \<Rightarrow> real (videoHeight v))"

text \<open>
  \<^verbatim>\<open>Math.floor(sourceWidth * scale)\<close> and \<^verbatim>\<open>Math.floor(sourceHeight * scale)\<close>, with
  the product as the machine forms it.
\<close>

definition targetSize :: "Canvas2D \<Rightarrow> HTMLVideoElement \<Rightarrow> CaptureOptions \<Rightarrow> int \<times> int" where
  "targetSize cp v options =
     (\<lfloor>multiply cp (sourceWidth v options) (scaleOf options)\<rfloor>,
      \<lfloor>multiply cp (sourceHeight v options) (scaleOf options)\<rfloor>)"

text \<open>Assigning the width and height of a canvas clears it.\<close>

definition resizeCanvas :: "int \<Rightarrow> int \<Rightarrow> real \<Rightarrow> Capture \<Rightarrow> Capture" where
  "resizeCanvas w h s c =
     (case canvas c of
        None \<Rightarrow> c
      | Some cv \<Rightarrow>
          c\<lparr>canvas := Some (cv\<lparr>Canvas.width := w, Canvas.height := h, painted := None\<rparr>),
            cachedDimensions := (w, h),
            cachedScale := s,
            reusableImageData := None\<rparr>)"

text \<open>\<^verbatim>\<open>if (cachedDimensions.width !== width || ... || cachedScale !== scale) resizeCanvas(...)\<close>\<close>

definition resizeIfChanged :: "int \<Rightarrow> int \<Rightarrow> real \<Rightarrow> Capture \<Rightarrow> Capture" where
  "resizeIfChanged w h s c =
     (if fst (cachedDimensions c) \<noteq> w \<or> snd (cachedDimensions c) \<noteq> h \<or> cachedScale c \<noteq> s
      then resizeCanvas w h s c else c)"

text \<open>\<^verbatim>\<open>ctx.drawImage(videoElement, ...)\<close> on the main canvas: it now shows the frame.\<close>

definition paint :: "HTMLVideoElement \<Rightarrow> Canvas option \<Rightarrow> Canvas option" where
  "paint v cv = map_option (\<lambda>k. k\<lparr>painted := Some (currentFrame v)\<rparr>) cv"

text \<open>
  The part shared by \<^verbatim>\<open>captureImageData\<close> and \<^verbatim>\<open>captureImage\<close>: resize when the
  cached dimensions or scale differ, set the mirror transform when the mirror flag
  changed, draw the frame. With a null context \<^verbatim>\<open>setTransform\<close> throws a TypeError
  outside the \<^verbatim>\<open>try\<close>, and \<^verbatim>\<open>drawImage\<close> throws one inside it.
\<close>

definition drawFrame ::
  "Canvas2D \<Rightarrow> HTMLVideoElement \<Rightarrow> int \<Rightarrow> int \<Rightarrow> real \<Rightarrow> bool \<Rightarrow> Capture \<Rightarrow>
     thrown option \<times> Capture" where
  "drawFrame cp v w h s m c =
     (let c1 = resizeIfChanged w h s c
      in case context2d c1 of
           None \<Rightarrow>
             (if m \<noteq> cachedMirror c1 then (Some nullContextError, c1)
              else (Some (drawFailed nullContextError), c1))
         | Some ctx \<Rightarrow>
             (let c2 = (if m \<noteq> cachedMirror c1
                        then c1\<lparr>context2d :=
                                  Some (ctx\<lparr>transform :=
                                    (if m then Transform (- 1) 0 0 1 (real_of_int w) 0
                                     else Transform 1 0 0 1 0 0)\<rparr>),
                                cachedMirror := m\<rparr>
                        else c1)
              in case drawImage cp of
                   Some e \<Rightarrow> (Some (drawFailed e), c2)
                 | None \<Rightarrow> (None, c2\<lparr>canvas := paint v (canvas c2)\<rparr>)))"

text \<open>
  \<^verbatim>\<open>ctx.getImageData(0, 0, width, height)\<close>: a new \<^verbatim>\<open>ImageData\<close> object that shows
  what the canvas shows.
\<close>

definition readPixels ::
  "Canvas2D \<Rightarrow> Capture \<Rightarrow> int \<Rightarrow> int \<Rightarrow> Dom \<Rightarrow> thrown + ImageData \<times> Dom" where
  "readPixels cp c w h d =
     (case getImageData cp w h of
        Some e \<Rightarrow> Inl e
      | None \<Rightarrow>
          Inr (\<lparr>bufferId = nextObject d, ImageData.width = w, ImageData.height = h\<rparr>,
               d\<lparr>nextObject := nextObject d + 1,
                 pixels := (pixels d)
                   (nextObject d := (case canvas c of None \<Rightarrow> None | Some cv \<Rightarrow> painted cv))\<rparr>))"

text \<open>
  \<^verbatim>\<open>captureImageData\<close>. When the pool is empty the object read from the canvas
  becomes the pooled one. When the pool holds an object, the code calls
  \<^verbatim>\<open>ctx.getImageData(0, 0, width, height, this.reusableImageData)\<close> and does not keep
  what the call returns. The fifth parameter of \<^verbatim>\<open>getImageData\<close> is a settings
  dictionary, not a target: the call returns a new object as before and leaves the
  pooled object as it was.
\<close>

definition captureImageData ::
  "Canvas2D \<Rightarrow> HTMLVideoElement \<Rightarrow> CaptureOptions \<Rightarrow> Capture \<Rightarrow> Dom \<Rightarrow>
     (thrown + CaptureImageDataResult) \<times> Capture \<times> Dom" where
  "captureImageData cp v options c d =
     (if readyState v < 2 then (Inl notReadyError, c, d)
      else
        let s = scaleOf options;
            w = fst (targetSize cp v options);
            h = snd (targetSize cp v options)
        in case drawFrame cp v w h s (mirrorOf options) c of
             (Some e, c') \<Rightarrow> (Inl e, c', d)
           | (None, c') \<Rightarrow>
               (case readPixels cp c' w h d of
                  Inl e \<Rightarrow> (Inl e, c', d)
                | Inr (fresh, d') \<Rightarrow>
                    (case reusableImageData c' of
                       None \<Rightarrow>
                         (Inr \<lparr>imageData = fresh,
                               CaptureImageDataResult.width = w,
                               CaptureImageDataResult.height = h\<rparr>,
                          c'\<lparr>reusableImageData := Some fresh\<rparr>, d')
                     | Some pooled \<Rightarrow>
                         (Inr \<lparr>imageData = pooled,
                               CaptureImageDataResult.width = w,
                               CaptureImageDataResult.height = h\<rparr>,
                          c', d'))))"

definition blobFailed :: "thrown \<Rightarrow> thrown" where
  "blobFailed e =
     WebcamError ''Failed to convert canvas to blob'' CAPTURE_FAILED (Some e)"

definition captureImage ::
  "Canvas2D \<Rightarrow> HTMLVideoElement \<Rightarrow> CaptureOptions \<Rightarrow> Capture \<Rightarrow> Dom \<Rightarrow>
     (thrown + CaptureImageResult) \<times> Capture \<times> Dom" where
  "captureImage cp v options c d =
     (if readyState v < 2 then (Inl notReadyError, c, d)
      else
        let s = scaleOf options;
            w = fst (targetSize cp v options);
            h = snd (targetSize cp v options)
        in case drawFrame cp v w h s (mirrorOf options) c of
             (Some e, c') \<Rightarrow> (Inl e, c', d)
           | (None, c') \<Rightarrow>
               (if canvas c' = None
                then (Inl (blobFailed (JsError ''Error'' ''Canvas lost during blob creation'')),
                      c', d)
                else if \<not> toBlobOk cp
                then (Inl (blobFailed (JsError ''Error'' ''Failed to create blob from canvas'')),
                      c', d)
                else
                  let b = nextObject d;
                      u = nextObject d + 1;
                      d1 = d\<lparr>nextObject := nextObject d + 2,
                             objectURLs := insert u (objectURLs d)\<rparr>;
                      mime = (case imageType options of
                                None \<Rightarrow> ''image/jpeg''
                              | Some t \<Rightarrow> if t = [] then ''image/jpeg'' else t)
                  in if (case includeBase64 options of None \<Rightarrow> True | Some i \<Rightarrow> i)
                     then (case readAsDataURL cp of
                             Some e \<Rightarrow>
                               (Inl (WebcamError ''Failed to convert blob to base64''
                                       CAPTURE_FAILED (Some e)),
                                c', d1\<lparr>objectURLs := objectURLs d1 - {u}\<rparr>)
                           | None \<Rightarrow>
                               (Inr \<lparr>blob = b, url = u, base64 = Some (nextObject d1),
                                     CaptureImageResult.width = w,
                                     CaptureImageResult.height = h,
                                     mimeType = mime\<rparr>,
                                c', d1\<lparr>nextObject := nextObject d1 + 1\<rparr>))
                     else (Inr \<lparr>blob = b, url = u, base64 = None,
                                CaptureImageResult.width = w,
                                CaptureImageResult.height = h,
                                mimeType = mime\<rparr>,
                           c', d1)))"

definition bitmapFailed :: "thrown \<Rightarrow> thrown" where
  "bitmapFailed e = WebcamError ''Failed to create ImageBitmap'' CAPTURE_FAILED (Some e)"

text \<open>
  \<^verbatim>\<open>captureImageBitmap\<close>. Without mirroring the bitmap is made from the video element
  directly and no field of the engine is read. With mirroring the mirror canvas is
  created when the field is null, resized when its size differs, and drawn through.
  Every failure inside the \<^verbatim>\<open>try\<close> is rethrown as CAPTURE_FAILED.
\<close>

definition captureImageBitmap ::
  "Canvas2D \<Rightarrow> HTMLVideoElement \<Rightarrow> CaptureOptions \<Rightarrow> Capture \<Rightarrow> Dom \<Rightarrow>
     (thrown + CaptureImageBitmapResult) \<times> Capture \<times> Dom" where
  "captureImageBitmap cp v options c d =
     (if readyState v < 2 then (Inl notReadyError, c, d)
      else
        let targetWidth = fst (targetSize cp v options);
            targetHeight = snd (targetSize cp v options);
            made = (case createImageBitmap cp of
                      Some e \<Rightarrow> Inl (bitmapFailed e)
                    | None \<Rightarrow>
                        Inr \<lparr>imageBitmap = nextObject d,
                             CaptureImageBitmapResult.width = targetWidth,
                             CaptureImageBitmapResult.height = targetHeight\<rparr>);
            d' = (case createImageBitmap cp of
                    Some e \<Rightarrow> d
                  | None \<Rightarrow> d\<lparr>nextObject := nextObject d + 1\<rparr>)
        in if \<not> mirrorOf options then (made, c, d')
           else
             let c1 = (if mirrorCanvas c = None
                       then c\<lparr>mirrorCanvas := Some createCanvas,
                              mirrorContext := getContext cp\<rparr>
                       else c)
             in if mirrorCanvas c = None \<and> mirrorContext c1 = None
                then (Inl (bitmapFailed
                        (WebcamError ''Failed to create mirror canvas context''
                           UNKNOWN_ERROR None)), c1, d)
                else
                  let c2 = (case mirrorCanvas c1 of
                              None \<Rightarrow> c1
                            | Some mc \<Rightarrow>
                                if Canvas.width mc \<noteq> targetWidth \<or>
                                   Canvas.height mc \<noteq> targetHeight
                                then c1\<lparr>mirrorCanvas :=
                                          Some (mc\<lparr>Canvas.width := targetWidth,
                                                   Canvas.height := targetHeight,
                                                   painted := None\<rparr>)\<rparr>
                                else c1)
                  in case mirrorContext c2 of
                       None \<Rightarrow> (Inl (bitmapFailed nullContextError), c2, d)
                     | Some ctx \<Rightarrow>
                         (let c3 = c2\<lparr>mirrorContext :=
                                        Some (ctx\<lparr>transform :=
                                          Transform (- 1) 0 0 1 (real_of_int targetWidth) 0\<rparr>)\<rparr>
                          in case drawImage cp of
                               Some e \<Rightarrow> (Inl (bitmapFailed e), c3, d)
                             | None \<Rightarrow>
                                 (made, c3\<lparr>mirrorCanvas := paint v (mirrorCanvas c3)\<rparr>, d')))"

definition disposeCapture :: "Capture \<Rightarrow> Capture" where
  "disposeCapture c =
     c\<lparr>canvas := None, context2d := None, mirrorCanvas := None, mirrorContext := None,
       reusableImageData := None, cachedDimensions := (0, 0)\<rparr>"

section \<open>Webcam (core/webcam.ts)\<close>

text \<open>
  The private methods \<^verbatim>\<open>_updateStatus\<close>, \<^verbatim>\<open>_setError\<close> and
  \<^verbatim>\<open>_notifyStateChange\<close> keep their names without the leading underscore;
  \<^verbatim>\<open>Capture.dispose\<close> is \<open>disposeCapture\<close> and \<^verbatim>\<open>Webcam.captureImage\<close> is
  \<open>Webcam_captureImage\<close>.
\<close>

datatype WebcamStatus = Idle | Initializing | Ready | ErrorStatus

text \<open>
  \<^verbatim>\<open>WebcamStateInternal\<close>. The interface declares \<^verbatim>\<open>activeResolution\<close>; the fields
  \<^verbatim>\<open>permissions\<close>, \<^verbatim>\<open>videoElement\<close> and \<^verbatim>\<open>device\<close> are never written by the class
  and are left out. The class writes two kinds of value to \<^verbatim>\<open>activeStream\<close>:
  \<^verbatim>\<open>null\<close> (initially and in \<^verbatim>\<open>stop\<close>), and in \<^verbatim>\<open>start\<close> the value that
  \<^verbatim>\<open>await this.stream.startStream(this.config)\<close> yields, which is the object
  \<^verbatim>\<open>{ stream, usedResolution }\<close>. The field has the type of what is stored in it.
\<close>

record WebcamStateInternal =
  status :: WebcamStatus
  activeStream :: "StartResult option"
  error :: "thrown option"
  zoomLevel :: "real option"
  focusMode :: "FocusMode option"
  torchEnabled :: "bool option"
  activeResolution :: "Resolution option"

text \<open>
  The callbacks of the configuration are host code. The model records each point where
  the class invokes one, in order, with its argument; the host receives it when it has
  registered that callback.
\<close>

datatype Callback =
    OnStateChange WebcamStateInternal
  | OnStreamStart StartResult
  | OnStreamStop
  | OnError thrown

text \<open>
  Inside the \<^verbatim>\<open>try\<close> block of \<^verbatim>\<open>start\<close> and inside its \<^verbatim>\<open>catch\<close> a callback that
  throws changes what \<^verbatim>\<open>start\<close> does, so there the callbacks in force are a parameter:
  each returns normally (\<open>None\<close>) or throws a value. A callback that is not registered
  is one that returns normally. A callback is taken not to call back into the session.
  In \<^verbatim>\<open>stop\<close>, \<^verbatim>\<open>dispose\<close> and \<^verbatim>\<open>setZoom\<close> the callbacks are taken to return
  normally.
\<close>

record Host =
  onStateChange :: "WebcamStateInternal \<Rightarrow> thrown option"
  onStreamStart :: "StartResult \<Rightarrow> thrown option"
  onError :: "thrown \<Rightarrow> thrown option"

record Webcam =
  stream :: Stream
  capture :: Capture
  state :: WebcamStateInternal
  config :: "WebcamConfiguration option"
  videoElement :: "HTMLVideoElement option"
  deviceChangeListener :: bool
  notifications :: "Callback list"

definition initialState :: WebcamStateInternal where
  "initialState =
     \<lparr>status = Idle, WebcamStateInternal.activeStream = None, error = None,
      zoomLevel = None, focusMode = None, torchEnabled = None, activeResolution = None\<rparr>"

text \<open>An object without any of the keys.\<close>

definition noConfig :: WebcamConfiguration where
  "noConfig = \<lparr>deviceId = None, preferredResolutions = Unspecified,
               WebcamConfiguration.videoElement = None,
               enableAudio = None, enableMirror = None\<rparr>"

definition overlay :: "'a Key \<Rightarrow> 'a \<Rightarrow> 'a" where
  "overlay k old = (case k of Absent \<Rightarrow> old | Present v \<Rightarrow> v)"

text \<open>
  \<^verbatim>\<open>{ ...this.config, ...config }\<close>: every key of the new object wins, also one whose
  value is undefined; the other keys keep the earlier value. Spreading an undefined
  \<^verbatim>\<open>this.config\<close> contributes no key.
\<close>

definition mergeConfig ::
  "WebcamConfiguration option \<Rightarrow> ConfigLiteral \<Rightarrow> WebcamConfiguration" where
  "mergeConfig prior new =
     (let old = (case prior of None \<Rightarrow> noConfig | Some c \<Rightarrow> c)
      in \<lparr>deviceId = overlay (deviceInfoKey new) (deviceId old),
          preferredResolutions =
            overlay (preferredResolutionsKey new) (preferredResolutions old),
          WebcamConfiguration.videoElement =
            overlay (videoElementKey new) (WebcamConfiguration.videoElement old),
          enableAudio = overlay (enableAudioKey new) (enableAudio old),
          enableMirror = overlay (enableMirrorKey new) (enableMirror old)\<rparr>)"

definition notifyStateChange :: "Webcam \<Rightarrow> Webcam" where
  "notifyStateChange wc = wc\<lparr>notifications := notifications wc @ [OnStateChange (state wc)]\<rparr>"

definition updateStatus :: "WebcamStatus \<Rightarrow> Webcam \<Rightarrow> Webcam" where
  "updateStatus st wc =
     notifyStateChange (wc\<lparr>state := (state wc)\<lparr>status := st, error := None\<rparr>\<rparr>)"

definition setError :: "thrown \<Rightarrow> Webcam \<Rightarrow> Webcam" where
  "setError e wc =
     notifyStateChange
       (wc\<lparr>state := (state wc)\<lparr>error := Some e, status := ErrorStatus\<rparr>,
           notifications := notifications wc @ [OnError e]\<rparr>)"

definition setMirror :: "bool \<Rightarrow> Webcam \<Rightarrow> Webcam" where
  "setMirror m wc =
     (case Webcam.videoElement wc of
        None \<Rightarrow> wc
      | Some v \<Rightarrow>
          wc\<lparr>Webcam.videoElement :=
               Some (v\<lparr>styleTransform := (if m then ''scaleX(-1)'' else [])\<rparr>)\<rparr>)"


text \<open>
  The first lines of \<^verbatim>\<open>start\<close>: a configuration that is given is spread over the
  earlier one, and its video element, when it has one, becomes the element of the
  session.
\<close>

definition adopt :: "ConfigLiteral option \<Rightarrow> Webcam \<Rightarrow> Webcam" where
  "adopt cfg wc =
     (case cfg of
        None \<Rightarrow> wc
      | Some new \<Rightarrow>
          wc\<lparr>config := Some (mergeConfig (config wc) new),
             Webcam.videoElement :=
               (case videoElementKey new of
                  Present (Some v) \<Rightarrow> Some v
                | other \<Rightarrow> Webcam.videoElement wc)\<rparr>)"

text \<open>
  The \<^verbatim>\<open>catch\<close> block of \<^verbatim>\<open>start\<close>, entered with the value thrown in the \<^verbatim>\<open>try\<close>
  block. \<^verbatim>\<open>_setError\<close> writes the state, then calls \<^verbatim>\<open>onError\<close>, then announces the
  state; when one of the two callbacks throws, that value leaves \<^verbatim>\<open>start\<close> and the
  rest is skipped. The result is the value \<^verbatim>\<open>start\<close> rejects with.
\<close>

definition startCatch ::
  "Host \<Rightarrow> thrown \<Rightarrow> Webcam \<Rightarrow> World \<Rightarrow> thrown option \<times> Webcam \<times> World" where
  "startCatch host e wc w =
     (let webcamError = (if isWebcamError e then e
                         else WebcamError ''Start failed'' UNKNOWN_ERROR (Some e))
      in case onError host webcamError of
           Some t \<Rightarrow>
             (Some t,
              wc\<lparr>state := (state wc)\<lparr>error := Some webcamError, status := ErrorStatus\<rparr>,
                 notifications := notifications wc @ [OnError webcamError]\<rparr>,
              w)
         | None \<Rightarrow>
             (let wc1 = setError webcamError wc
              in case onStateChange host (state wc1) of
                   Some t \<Rightarrow> (Some t, wc1, w)
                 | None \<Rightarrow> (Some webcamError, wc1, w)))"

text \<open>
  The end of the \<^verbatim>\<open>try\<close> block: \<^verbatim>\<open>this._updateStatus("ready")\<close> and
  \<^verbatim>\<open>this.config.onStreamStart?.(stream)\<close>. The result \<open>None\<close> says that the promise
  resolves.
\<close>

definition startFinish ::
  "Host \<Rightarrow> StartResult \<Rightarrow> Webcam \<Rightarrow> World \<Rightarrow> thrown option \<times> Webcam \<times> World" where
  "startFinish host res wc w =
     (let wc1 = updateStatus Ready wc
      in case onStateChange host (state wc1) of
           Some e \<Rightarrow> startCatch host e wc1 w
         | None \<Rightarrow>
             (let wc2 = wc1\<lparr>notifications := notifications wc1 @ [OnStreamStart res]\<rparr>
              in case onStreamStart host res of
                   Some e \<Rightarrow> startCatch host e wc2 w
                 | None \<Rightarrow> (None, wc2, w)))"

text \<open>
  \<^verbatim>\<open>start\<close>. The value that \<^verbatim>\<open>startStream\<close> yields is bound to \<^verbatim>\<open>stream\<close>, stored
  in \<^verbatim>\<open>state.activeStream\<close>, assigned to \<^verbatim>\<open>srcObject\<close> of the video element and
  passed to \<^verbatim>\<open>onStreamStart\<close>; \<^verbatim>\<open>state.activeResolution\<close> is not written. The
  assignment to \<^verbatim>\<open>srcObject\<close> and every callback are inside the \<^verbatim>\<open>try\<close>; the test
  for a configuration is before it. The result is \<open>None\<close> when the promise resolves and
  the thrown value when it rejects.
\<close>

definition start ::
  "Platform \<Rightarrow> Host \<Rightarrow> ConfigLiteral option \<Rightarrow> Webcam \<Rightarrow> World \<Rightarrow>
     thrown option \<times> Webcam \<times> World" where
  "start p host cfg wc w =
     (let wc1 = adopt cfg wc
      in case config wc1 of
           None \<Rightarrow> (Some (WebcamError ''Configuration is required'' INVALID_CONFIG None), wc1, w)
         | Some conf \<Rightarrow>
             (let wc2 = updateStatus Initializing wc1
              in case onStateChange host (state wc2) of
                   Some e \<Rightarrow> startCatch host e wc2 w
                 | None \<Rightarrow>
                     (case startStream p conf (Webcam.stream wc2) w of
                        (Inl e, st', w') \<Rightarrow> startCatch host e (wc2\<lparr>Webcam.stream := st'\<rparr>) w'
                      | (Inr res, st', w') \<Rightarrow>
                          (let wc3 = wc2\<lparr>Webcam.stream := st',
                                        state := (state wc2)
                                          \<lparr>WebcamStateInternal.activeStream := Some res\<rparr>\<rparr>
                           in case Webcam.videoElement wc3 of
                                None \<Rightarrow> startFinish host res wc3 w'
                              | Some v \<Rightarrow>
                                  (case srcObjectSetter p res of
                                     Some e \<Rightarrow> startCatch host e wc3 w'
                                   | None \<Rightarrow>
                                       (let wc4 = wc3\<lparr>Webcam.videoElement :=
                                                       Some (v\<lparr>srcObject := Some res\<rparr>)\<rparr>
                                        in startFinish host res
                                             (if enableMirror conf = Some True
                                              then setMirror True wc4 else wc4)
                                             w'))))))"

definition stop :: "Webcam \<Rightarrow> World \<Rightarrow> Webcam \<times> World" where
  "stop wc w =
     (case stopStream (Webcam.stream wc) w of
        (st', w') \<Rightarrow>
          (let wc1 = wc\<lparr>Webcam.stream := st',
                        state := (state wc)\<lparr>WebcamStateInternal.activeStream := None\<rparr>\<rparr>;
               wc2 = (case Webcam.videoElement wc1 of
                        None \<Rightarrow> wc1
                      | Some v \<Rightarrow>
                          wc1\<lparr>Webcam.videoElement := Some (v\<lparr>srcObject := None\<rparr>)\<rparr>);
               wc3 = updateStatus Idle wc2
           in (wc3\<lparr>notifications := notifications wc3 @ [OnStreamStop]\<rparr>, w')))"

text \<open>
  \<^verbatim>\<open>getCurrentResolution\<close>. Without an active stream it returns \<^verbatim>\<open>null\<close>
  (\<open>Inr None\<close>). Otherwise it calls \<^verbatim>\<open>this.state.activeStream.getVideoTracks()\<close>. The
  value stored there is the object \<^verbatim>\<open>{ stream, usedResolution }\<close>, which has no such
  method, so the call throws a TypeError and the rest of the method, which would make a
  label from the track settings, is not reached.
\<close>

definition getCurrentResolution :: "Webcam \<Rightarrow> thrown + Resolution option" where
  "getCurrentResolution wc =
     (case WebcamStateInternal.activeStream (state wc) of
        None \<Rightarrow> Inr None
      | Some res \<Rightarrow>
          Inl (JsError ''TypeError''
                 ''this.state.activeStream.getVideoTracks is not a function''))"

definition setZoom ::
  "Platform \<Rightarrow> real \<Rightarrow> Webcam \<Rightarrow> World \<Rightarrow> thrown option \<times> Webcam \<times> World" where
  "setZoom p zoom wc w =
     (if zoom < 1
      then (Some (WebcamError ''Zoom level must be greater than or equal to 1''
                    INVALID_CONFIG None), wc, w)
      else
        case applyConstraints p (ZoomPatch zoom) (Webcam.stream wc) w of
          (Some e, w') \<Rightarrow>
            (Some (if isWebcamError e then e
                   else WebcamError ''Failed to set zoom'' STREAM_ERROR (Some e)), wc, w')
        | (None, w') \<Rightarrow>
            (None,
             notifyStateChange (wc\<lparr>state := (state wc)\<lparr>zoomLevel := Some zoom\<rparr>\<rparr>), w'))"




text \<open>
  The constructor, with the capture engine created by \<^verbatim>\<open>new Capture()\<close>. The device
  change listener is registered when the platform has \<^verbatim>\<open>addEventListener\<close>.
\<close>

definition newWebcam ::
  "Platform \<Rightarrow> Canvas2D \<Rightarrow> WebcamConfiguration option \<Rightarrow> thrown + Webcam" where
  "newWebcam p cp cfg =
     (case newCapture cp of
        Inl e \<Rightarrow> Inl e
      | Inr c \<Rightarrow>
          Inr \<lparr>Webcam.stream = \<lparr>Stream.activeStream = None\<rparr>,
               capture = c,
               state = initialState,
               config = cfg,
               Webcam.videoElement =
                 (case cfg of
                    None \<Rightarrow> None
                  | Some conf \<Rightarrow> WebcamConfiguration.videoElement conf),
               deviceChangeListener = addEventListenerSupported p,
               notifications = []\<rparr>)"

section \<open>Notions used to state the properties\<close>

text \<open>
  The outcome of one candidate of the resolution array: what constraint building throws
  for it, or what the platform answers to the constraints built for it.
\<close>

definition attempt ::
  "Platform \<Rightarrow> WebcamConfiguration \<Rightarrow> Resolution \<Rightarrow> thrown + MediaStreamTrack list" where
  "attempt p conf r =
     (case buildConstraints (conf\<lparr>preferredResolutions := Single r\<rparr>) of
        Inl e \<Rightarrow> Inl e
      | Inr c \<Rightarrow> respond p c)"

text \<open>The constraints built for the candidates of a list, in order, skipping the
  candidates for which constraint building throws.\<close>

definition requests :: "WebcamConfiguration \<Rightarrow> Resolution list \<Rightarrow> MediaStreamConstraints list" where
  "requests conf rs =
     concat (map (\<lambda>r. case buildConstraints (conf\<lparr>preferredResolutions := Single r\<rparr>) of
                         Inl e \<Rightarrow> []
                       | Inr c \<Rightarrow> [c]) rs)"

text \<open>
  The product of two numbers in 64-bit binary floating point is the exact product
  rounded to the nearest representable number, a tie going to the number whose last
  digit is even. Around a number of magnitude at least \<open>2 ^ e\<close> and less than
  \<open>2 ^ (e + 1)\<close> the representable numbers are the multiples of \<open>2 ^ (e - 52)\<close>; below
  \<open>2 ^ - 1022\<close> they are the multiples of \<open>2 ^ - 1074\<close>. A result of magnitude
  \<open>2 ^ 1024\<close> or more is infinite in the machine and is outside the model.
\<close>

definition roundEven :: "real \<Rightarrow> int" where
  "roundEven u =
     (if u - of_int \<lfloor>u\<rfloor> < 1 / 2 then \<lfloor>u\<rfloor>
      else if 1 / 2 < u - of_int \<lfloor>u\<rfloor> then \<lfloor>u\<rfloor> + 1
      else if even \<lfloor>u\<rfloor> then \<lfloor>u\<rfloor> else \<lfloor>u\<rfloor> + 1)"

definition spacing :: "real \<Rightarrow> real" where
  "spacing u = 2 powr (of_int (max (- 1022) \<lfloor>log 2 \<bar>u\<bar>\<rfloor>) - 52)"

definition binary64 :: "real \<Rightarrow> real" where
  "binary64 u = (if u = 0 then 0 else spacing u * of_int (roundEven (u / spacing u)))"

definition doubleProduct :: "real \<Rightarrow> real \<Rightarrow> real" where
  "doubleProduct a b = binary64 (a * b)"

text \<open>
  The output size in words: the source dimension is the size of the crop region when
  one is given and the size of the video frame otherwise; the scale is the requested one
  when it lies between the numbers written \<^verbatim>\<open>0.1\<close> and \<^verbatim>\<open>2\<close>, the nearer of the two
  when it lies outside, and 1 when none is requested; each output dimension is the
  floor of the floating point product of source dimension and scale.
\<close>

definition clampedScale :: "real option \<Rightarrow> real" where
  "clampedScale s =
     (case s of
        None \<Rightarrow> 1
      | Some k \<Rightarrow> if k < tenth then tenth else if 2 < k then 2 else k)"

definition roundedSize :: "HTMLVideoElement \<Rightarrow> CaptureOptions \<Rightarrow> int \<times> int" where
  "roundedSize v options =
     (case crop options of
        Some region \<Rightarrow>
          (\<lfloor>binary64 (CropRegion.width region * clampedScale (scale options))\<rfloor>,
           \<lfloor>binary64 (CropRegion.height region * clampedScale (scale options))\<rfloor>)
      | None \<Rightarrow>
          (\<lfloor>binary64 (real (videoWidth v) * clampedScale (scale options))\<rfloor>,
           \<lfloor>binary64 (real (videoHeight v) * clampedScale (scale options))\<rfloor>))"

text \<open>The products of a capture stay below the largest finite number.\<close>

definition finiteProducts :: "HTMLVideoElement \<Rightarrow> CaptureOptions \<Rightarrow> bool" where
  "finiteProducts v options =
     (\<bar>sourceWidth v options * scaleOf options\<bar> < 2 ^ 1023 \<and>
      \<bar>sourceHeight v options * scaleOf options\<bar> < 2 ^ 1023)"

text \<open>
  An object literal that has a key exactly for each value that is defined.
\<close>

definition literal :: "WebcamConfiguration \<Rightarrow> ConfigLiteral" where
  "literal c =
     \<lparr>deviceInfoKey = (case deviceId c of None \<Rightarrow> Absent | Some d \<Rightarrow> Present (Some d)),
      preferredResolutionsKey =
        (case preferredResolutions c of Unspecified \<Rightarrow> Absent | given \<Rightarrow> Present given),
      videoElementKey =
        (case WebcamConfiguration.videoElement c of
           None \<Rightarrow> Absent
         | Some v \<Rightarrow> Present (Some v)),
      enableAudioKey = (case enableAudio c of None \<Rightarrow> Absent | Some b \<Rightarrow> Present (Some b)),
      enableMirrorKey = (case enableMirror c of None \<Rightarrow> Absent | Some b \<Rightarrow> Present (Some b))\<rparr>"

section \<open>Concrete scenarios\<close>

definition overconstrained :: thrown where
  "overconstrained = JsError ''OverconstrainedError'' ''width''"

definition hdTrack :: MediaStreamTrack where
  "hdTrack = \<lparr>trackId = 0, kind = VideoKind,
              settingsWidth = Some 1280, settingsHeight = Some 720\<rparr>"

text \<open>A camera that delivers 1280 by 720 only: any other exact size is over-constrained.
  Its track accepts every zoom up to 4 and rejects the rest as over-constrained. The
  video element is a stand-in that stores whatever is assigned to its \<^verbatim>\<open>srcObject\<close>.\<close>

definition only720 :: Platform where
  "only720 =
     \<lparr>respond = (\<lambda>c. if (c_width (video c) = Some (Exact 1280) \<or>
                          c_width (video c) = Some (Ideal 1280)) \<and>
                         (c_height (video c) = Some (Exact 720) \<or>
                          c_height (video c) = Some (Ideal 720))
                      then Inr [hdTrack] else Inl overconstrained),
      applyTrack = (\<lambda>t c. case c of
                             ZoomPatch z \<Rightarrow> if z \<le> 4 then None else Some overconstrained
                           | other \<Rightarrow> Some (JsError ''NotSupportedError'' [])),
      srcObjectSetter = (\<lambda>r. None),
      addEventListenerSupported = True,
      removeEventListenerSupported = True\<rparr>"

text \<open>The same camera behind a browser: a video element accepts a media stream or null
  as its \<^verbatim>\<open>srcObject\<close> and throws a TypeError for the object that \<^verbatim>\<open>start\<close> assigns.\<close>

definition notAStream :: thrown where
  "notAStream = JsError ''TypeError'' ''The provided value is not of type MediaStream''"

definition browser720 :: Platform where
  "browser720 = only720\<lparr>srcObjectSetter := (\<lambda>r. Some notAStream)\<rparr>"

text \<open>A host whose callbacks return normally, and one whose \<^verbatim>\<open>onStreamStart\<close> throws.\<close>

definition quietHost :: Host where
  "quietHost = \<lparr>onStateChange = (\<lambda>s. None), onStreamStart = (\<lambda>r. None),
                onError = (\<lambda>e. None)\<rparr>"

definition hostFailure :: thrown where
  "hostFailure = JsError ''Error'' ''handler failed''"

definition throwingHost :: Host where
  "throwingHost = quietHost\<lparr>onStreamStart := (\<lambda>r. Some hostFailure)\<rparr>"

text \<open>A canvas platform on which nothing fails. Its product is the exact one; the
  products of the scenarios that use it are whole numbers below \<open>2 ^ 53\<close>, which are
  representable, so the machine product is the same there. \<open>ieeeCanvas\<close> has the
  floating point product.\<close>

definition okCanvas :: Canvas2D where
  "okCanvas =
     \<lparr>multiply = (\<lambda>a b. a * b),
      getContextOk = True, drawImage = None, getImageData = (\<lambda>w h. None),
      toBlobOk = True, readAsDataURL = None, createImageBitmap = None\<rparr>"

definition ieeeCanvas :: Canvas2D where
  "ieeeCanvas = okCanvas\<lparr>multiply := doubleProduct\<rparr>"

definition emptyWorld :: World where
  "emptyWorld = \<lparr>gumCalls = [], applyCalls = [], liveTracks = {}, nextTrackId = 0\<rparr>"

definition emptyDom :: Dom where
  "emptyDom = \<lparr>nextObject = 0, objectURLs = {}, pixels = (\<lambda>i. None)\<rparr>"

definition S720 :: Resolution where
  "S720 = \<lparr>label = ''S720'', Resolution.width = Some 720, Resolution.height = Some 720\<rparr>"

definition HD :: Resolution where
  "HD = \<lparr>label = ''HD'', Resolution.width = Some 1280, Resolution.height = Some 720\<rparr>"

definition FHD :: Resolution where
  "FHD = \<lparr>label = ''FHD'', Resolution.width = Some 1920, Resolution.height = Some 1080\<rparr>"

definition zeroWidth :: Resolution where
  "zeroWidth = \<lparr>label = ''bad'', Resolution.width = Some 0, Resolution.height = Some 720\<rparr>"

definition blankVideo :: HTMLVideoElement where
  "blankVideo = \<lparr>srcObject = None, styleTransform = [], readyState = 0,
                 videoWidth = 0, videoHeight = 0, currentFrame = 0\<rparr>"

text \<open>A playing video of 1280 by 720 that shows its first frame, and the same video
  later, when it shows its second frame.\<close>

definition playingVideo :: HTMLVideoElement where
  "playingVideo = \<lparr>srcObject = None, styleTransform = [], readyState = 4,
                   videoWidth = 1280, videoHeight = 720, currentFrame = 1\<rparr>"

definition laterVideo :: HTMLVideoElement where
  "laterVideo = playingVideo\<lparr>currentFrame := 2\<rparr>"

definition noOptions :: CaptureOptions where
  "noOptions = \<lparr>scale = None, mirror = None, crop = None, imageType = None,
                quality = None, includeBase64 = None\<rparr>"

definition freshCapture :: Capture where
  "freshCapture =
     \<lparr>canvas = Some createCanvas, context2d = Some \<lparr>transform = identityTransform\<rparr>,
      reusableImageData = None, cachedDimensions = (0, 0), cachedScale = 1,
      cachedMirror = False, mirrorCanvas = None, mirrorContext = None\<rparr>"

definition freshWebcam :: "WebcamConfiguration option \<Rightarrow> Webcam" where
  "freshWebcam cfg =
     \<lparr>Webcam.stream = \<lparr>Stream.activeStream = None\<rparr>,
      capture = freshCapture,
      state = initialState,
      config = cfg,
      Webcam.videoElement =
        (case cfg of None \<Rightarrow> None | Some conf \<Rightarrow> WebcamConfiguration.videoElement conf),
      deviceChangeListener = True,
      notifications = []\<rparr>"

text \<open>The resolutions S720 and HD in this order, without and with a video element.\<close>

definition listConfig :: WebcamConfiguration where
  "listConfig = noConfig\<lparr>preferredResolutions := Several [S720, HD]\<rparr>"

definition sinkConfig :: WebcamConfiguration where
  "sinkConfig = listConfig\<lparr>WebcamConfiguration.videoElement := Some blankVideo\<rparr>"

definition fhdConfig :: WebcamConfiguration where
  "fhdConfig = noConfig\<lparr>preferredResolutions := Single FHD\<rparr>"

text \<open>What \<^verbatim>\<open>startStream\<close> returns for the two resolutions on the camera.\<close>

definition hdResult :: StartResult where
  "hdResult = \<lparr>StartResult.stream = \<lparr>tracks = [hdTrack]\<rparr>, usedResolution = Some HD\<rparr>"

text \<open>A first start that asks for an unsatisfiable single resolution.\<close>

definition session0 :: "thrown option \<times> Webcam \<times> World" where
  "session0 = start only720 quietHost (Some (literal fhdConfig)) (freshWebcam None) emptyWorld"

text \<open>A first start that succeeds on the second candidate.\<close>

definition session1 :: "thrown option \<times> Webcam \<times> World" where
  "session1 = start only720 quietHost (Some (literal sinkConfig)) (freshWebcam None) emptyWorld"

text \<open>Then a start that asks for an unsatisfiable single resolution.\<close>

definition session2 :: "thrown option \<times> Webcam \<times> World" where
  "session2 = start only720 quietHost (Some (literal fhdConfig))
                (fst (snd session1)) (snd (snd session1))"

text \<open>Or else a second start with the configuration unchanged, and then a stop.\<close>

definition session3 :: "thrown option \<times> Webcam \<times> World" where
  "session3 = start only720 quietHost None (fst (snd session1)) (snd (snd session1))"

definition session4 :: "Webcam \<times> World" where
  "session4 = stop (fst (snd session3)) (snd (snd session3))"

text \<open>The first start again: in a browser, with a host whose \<^verbatim>\<open>onStreamStart\<close>
  throws, and in a browser without a video element.\<close>

definition browserSession :: "thrown option \<times> Webcam \<times> World" where
  "browserSession =
     start browser720 quietHost (Some (literal sinkConfig)) (freshWebcam None) emptyWorld"

definition throwingSession :: "thrown option \<times> Webcam \<times> World" where
  "throwingSession =
     start only720 throwingHost (Some (literal sinkConfig)) (freshWebcam None) emptyWorld"

definition headlessSession :: "thrown option \<times> Webcam \<times> World" where
  "headlessSession =
     start browser720 quietHost (Some (literal listConfig)) (freshWebcam None) emptyWorld"

definition halfScale :: CaptureOptions where
  "halfScale = noOptions\<lparr>scale := Some (1 / 2)\<rparr>"

definition croppedTriple :: CaptureOptions where
  "croppedTriple = noOptions\<lparr>scale := Some 3, mirror := Some True,
                     crop := Some \<lparr>x = 10, y = 20, CropRegion.width = 200,
                                   CropRegion.height = 100\<rparr>\<rparr>"

text \<open>The number that the literal \<^verbatim>\<open>0.7\<close> denotes, and a capture at that scale.\<close>

definition sevenTenths :: real where
  "sevenTenths = 3152519739159347 / 4503599627370496"

definition scaled07 :: CaptureOptions where
  "scaled07 = noOptions\<lparr>scale := Some sevenTenths\<rparr>"

text \<open>Three captures in a row on a fresh engine: of the first frame and then of the
  second frame at scale 1, then of the second frame at scale one half.\<close>

definition capture1 :: "(thrown + CaptureImageDataResult) \<times> Capture \<times> Dom" where
  "capture1 = captureImageData okCanvas playingVideo noOptions freshCapture emptyDom"

definition capture2 :: "(thrown + CaptureImageDataResult) \<times> Capture \<times> Dom" where
  "capture2 = captureImageData okCanvas laterVideo noOptions
                (fst (snd capture1)) (snd (snd capture1))"

definition capture3 :: "(thrown + CaptureImageDataResult) \<times> Capture \<times> Dom" where
  "capture3 = captureImageData okCanvas laterVideo halfScale
                (fst (snd capture2)) (snd (snd capture2))"

definition mirrored :: CaptureOptions where
  "mirrored = noOptions\<lparr>mirror := Some True\<rparr>"


section \<open>The scenarios are states the constructors produce\<close>

lemmas scenario_defs =
  only720_def browser720_def notAStream_def hdTrack_def overconstrained_def emptyWorld_def
  noConfig_def S720_def HD_def FHD_def zeroWidth_def blankVideo_def freshWebcam_def
  freshCapture_def initialState_def listConfig_def sinkConfig_def fhdConfig_def hdResult_def
  quietHost_def throwingHost_def hostFailure_def literal_def

lemmas stream_defs =
  attempt_def requests_def buildConstraints_def exactFor_def deviceConstraint_def audioFlag_def
  falsy_def invalidResolutionError_def DEFAULT_RESOLUTION_def handleStartError_def asError_def
  getUserMedia_def newStream_def

lemmas webcam_defs =
  start_def adopt_def startCatch_def startFinish_def stop_def startStream_def stopStream_def
  mergeConfig_def overlay_def updateStatus_def notifyStateChange_def setError_def setMirror_def
  stopTracks_def getTracks_def

lemmas session_defs =
  session0_def session1_def session2_def session3_def session4_def browserSession_def
  throwingSession_def headlessSession_def

lemmas eval_defs = webcam_defs scenario_defs stream_defs Let_def

lemma fresh_is_new: "newCapture okCanvas = Inr freshCapture"
  by (simp add: newCapture_def getContext_def okCanvas_def freshCapture_def)

lemma fresh_webcam_is_new: "newWebcam only720 okCanvas cfg = Inr (freshWebcam cfg)"
  by (simp add: newWebcam_def fresh_is_new freshWebcam_def only720_def)

lemma merge_literal: "mergeConfig None (literal c) = c"
  by (simp add: mergeConfig_def literal_def overlay_def noConfig_def Let_def
        split: option.splits PreferredResolutions.splits)

section \<open>Live constraints\<close>

text \<open>
  C6. \<^verbatim>\<open>Stream.applyConstraints\<close> rejects with a STREAM_ERROR when there is no active
  stream and when the active stream has no video track. When the platform call on the
  first video track fails with an \<^verbatim>\<open>Error\<close> named OverconstrainedError it rejects
  with a CONSTRAINT_ERROR carrying that failure; every other platform failure is
  rejected as a STREAM_ERROR carrying it; and when the platform accepts, it resolves.
\<close>

theorem applyConstraints_error_codes:
  "(Stream.activeStream st = None \<longrightarrow>
      fst (applyConstraints p c st w) =
        Some (WebcamError ''No active stream to apply constraints'' STREAM_ERROR None))
   \<and> (Stream.activeStream st = Some s \<and> getVideoTracks s = [] \<longrightarrow>
      fst (applyConstraints p c st w) =
        Some (WebcamError ''No video track found in active stream'' STREAM_ERROR None))
   \<and> (Stream.activeStream st = Some s \<and> getVideoTracks s = t # ts \<and>
        applyTrack p t c = Some e \<and> isError e \<and> errorName e = Some ''OverconstrainedError'' \<longrightarrow>
      fst (applyConstraints p c st w) =
        Some (WebcamError ''Cannot apply constraints: not supported by device''
                CONSTRAINT_ERROR (Some e)))
   \<and> (Stream.activeStream st = Some s \<and> getVideoTracks s = t # ts \<and>
        applyTrack p t c = Some e \<and>
        \<not> (isError e \<and> errorName e = Some ''OverconstrainedError'') \<longrightarrow>
      fst (applyConstraints p c st w) =
        Some (WebcamError ''Failed to apply constraints'' STREAM_ERROR (Some e)))
   \<and> (Stream.activeStream st = Some s \<and> getVideoTracks s = t # ts \<and>
        applyTrack p t c = None \<longrightarrow>
      fst (applyConstraints p c st w) = None)"
  by (simp add: applyConstraints_def firstVideoTrack_def Let_def)

theorem applyConstraints_error_codes_witness:
  "fst (applyConstraints only720 (ZoomPatch 9) \<lparr>Stream.activeStream = None\<rparr> emptyWorld) =
     Some (WebcamError ''No active stream to apply constraints'' STREAM_ERROR None)
   \<and> fst (applyConstraints only720 (ZoomPatch 9)
            \<lparr>Stream.activeStream = Some \<lparr>tracks = []\<rparr>\<rparr> emptyWorld) =
     Some (WebcamError ''No video track found in active stream'' STREAM_ERROR None)
   \<and> fst (applyConstraints only720 (ZoomPatch 9)
            \<lparr>Stream.activeStream = Some \<lparr>tracks = [hdTrack]\<rparr>\<rparr> emptyWorld) =
     Some (WebcamError ''Cannot apply constraints: not supported by device''
             CONSTRAINT_ERROR (Some overconstrained))
   \<and> fst (applyConstraints only720 (TorchPatch True)
            \<lparr>Stream.activeStream = Some \<lparr>tracks = [hdTrack]\<rparr>\<rparr> emptyWorld) =
     Some (WebcamError ''Failed to apply constraints'' STREAM_ERROR
             (Some (JsError ''NotSupportedError'' [])))
   \<and> fst (applyConstraints only720 (ZoomPatch 2)
            \<lparr>Stream.activeStream = Some \<lparr>tracks = [hdTrack]\<rparr>\<rparr> emptyWorld) = None"
  using
    applyConstraints_error_codes
      [of "\<lparr>Stream.activeStream = None\<rparr>" only720 "ZoomPatch 9" emptyWorld]
    applyConstraints_error_codes
      [of "\<lparr>Stream.activeStream = Some \<lparr>tracks = []\<rparr>\<rparr>" only720 "ZoomPatch 9" emptyWorld
          "\<lparr>tracks = []\<rparr>"]
    applyConstraints_error_codes
      [of "\<lparr>Stream.activeStream = Some \<lparr>tracks = [hdTrack]\<rparr>\<rparr>" only720 "ZoomPatch 9"
          emptyWorld "\<lparr>tracks = [hdTrack]\<rparr>" hdTrack "[]" overconstrained]
    applyConstraints_error_codes
      [of "\<lparr>Stream.activeStream = Some \<lparr>tracks = [hdTrack]\<rparr>\<rparr>" only720 "TorchPatch True"
          emptyWorld "\<lparr>tracks = [hdTrack]\<rparr>" hdTrack "[]" "JsError ''NotSupportedError'' []"]
    applyConstraints_error_codes
      [of "\<lparr>Stream.activeStream = Some \<lparr>tracks = [hdTrack]\<rparr>\<rparr>" only720 "ZoomPatch 2"
          emptyWorld "\<lparr>tracks = [hdTrack]\<rparr>" hdTrack "[]"]
  by (simp add: only720_def hdTrack_def getVideoTracks_def overconstrained_def)

section \<open>Acquisition: the resolution array\<close>

lemma buildConstraints_single_invalid:
  "falsy (Resolution.width r) \<or> falsy (Resolution.height r) \<Longrightarrow>
   buildConstraints (conf\<lparr>preferredResolutions := Single r\<rparr>) = Inl invalidResolutionError"
  by (auto simp: buildConstraints_def)

lemma buildConstraints_single_valid:
  "\<not> falsy (Resolution.width r) \<Longrightarrow> \<not> falsy (Resolution.height r) \<Longrightarrow>
   buildConstraints (conf\<lparr>preferredResolutions := Single r\<rparr>) = Inr (exactFor conf r)"
  by (simp add: buildConstraints_def exactFor_def deviceConstraint_def audioFlag_def)

lemma validateResolutions_member:
  "r \<in> set rs \<Longrightarrow> falsy (Resolution.width r) \<or> falsy (Resolution.height r) \<Longrightarrow>
   validateResolutions rs = Some invalidResolutionError"
  by (induction rs) auto

lemma tryResolutions_config:
  "tryResolutions p (conf\<lparr>preferredResolutions := pr\<rparr>) rs le w = tryResolutions p conf rs le w"
  by (induction rs arbitrary: le w) (simp_all split: sum.splits prod.splits)

lemma requests_append: "requests conf (as @ bs) = requests conf as @ requests conf bs"
  by (simp add: requests_def)

lemma tryResolutions_failed_prefix:
  "\<forall>c\<in>set pre. isl (attempt p conf c) \<Longrightarrow>
   tryResolutions p conf (pre @ rest) le w =
   tryResolutions p conf rest
     (if pre = [] then le else Some (asError (projl (attempt p conf (last pre)))))
     (w\<lparr>gumCalls := gumCalls w @ requests conf pre\<rparr>)"
proof (induction pre arbitrary: le w)
  case Nil
  then show ?case by (simp add: requests_def)
next
  case (Cons a pre)
  from Cons.prems have a: "isl (attempt p conf a)" and rest: "\<forall>c\<in>set pre. isl (attempt p conf c)"
    by simp_all
  show ?case
  proof (cases "buildConstraints (conf\<lparr>preferredResolutions := Single a\<rparr>)")
    case (Inl e)
    then show ?thesis
      using Cons.IH [OF rest, of "Some (asError e)" w]
      by (simp add: attempt_def requests_def)
  next
    case (Inr c)
    with a obtain e where e: "respond p c = Inl e"
      by (auto simp: attempt_def isl_def)
    show ?thesis
      using Inr e Cons.IH [OF rest, of "Some (asError e)" "w\<lparr>gumCalls := gumCalls w @ [c]\<rparr>"]
      by (simp add: attempt_def requests_def getUserMedia_def)
  qed
qed

lemma tryResolutions_success:
  "attempt p conf r = Inr ts \<Longrightarrow>
   tryResolutions p conf (r # post) le w =
     (Inr (newStream (nextTrackId w) ts, r),
      w\<lparr>gumCalls := gumCalls w @ requests conf [r],
        liveTracks := liveTracks w \<union> {nextTrackId w ..< nextTrackId w + length ts},
        nextTrackId := nextTrackId w + length ts\<rparr>)"
  by (cases "buildConstraints (conf\<lparr>preferredResolutions := Single r\<rparr>)")
     (simp_all add: attempt_def requests_def getUserMedia_def)

text \<open>
  C1 (as amended). When \<^verbatim>\<open>preferredResolutions\<close> is an array, \<^verbatim>\<open>startStream\<close> goes
  through the candidates in array order. The platform receives, in that order, the
  constraints built for the candidates up to and including the first one that succeeds
  (a candidate for which constraint building throws issues no platform call); these
  constraints hold the exact device id when a non-empty one is configured and the exact
  width and height of the candidate. The first candidate that succeeds ends the loop:
  the result holds its stream and the candidate itself, label included, and the stream
  becomes the active stream. The failures before it leave no trace in the result. When
  every candidate fails, what is thrown is not the last failure itself but the start
  error built from it: a WebcamError whose code is mapped from the name of the last
  failure and whose \<^verbatim>\<open>originalError\<close> is that failure (replaced by a generic Error
  when it is not an instance of Error). An empty array throws the start error built from
  the generic Error ``No resolution worked''.
\<close>

theorem startStream_list_order:
  "(preferredResolutions conf = Several (pre @ r # post) \<and>
      (\<forall>c\<in>set pre. isl (attempt p conf c)) \<and> attempt p conf r = Inr ts \<longrightarrow>
      startStream p conf st w =
        (Inr \<lparr>StartResult.stream = newStream (nextTrackId w) ts, usedResolution = Some r\<rparr>,
         st\<lparr>Stream.activeStream := Some (newStream (nextTrackId w) ts)\<rparr>,
         w\<lparr>gumCalls := gumCalls w @ requests conf (pre @ [r]),
           liveTracks := liveTracks w \<union> {nextTrackId w ..< nextTrackId w + length ts},
           nextTrackId := nextTrackId w + length ts\<rparr>))
   \<and> (preferredResolutions conf = Several (pre @ [r]) \<and>
      (\<forall>c\<in>set pre. isl (attempt p conf c)) \<and> attempt p conf r = Inl e \<longrightarrow>
      startStream p conf st w =
        (Inl (handleStartError (asError e)), st,
         w\<lparr>gumCalls := gumCalls w @ requests conf (pre @ [r])\<rparr>))
   \<and> (preferredResolutions conf = Several [] \<longrightarrow>
      startStream p conf st w =
        (Inl (handleStartError (JsError ''Error'' ''No resolution worked'')), st, w))
   \<and> (Resolution.width r = Some wd \<and> Resolution.height r = Some ht \<and> wd \<noteq> 0 \<and> ht \<noteq> 0 \<longrightarrow>
      buildConstraints (conf\<lparr>preferredResolutions := Single r\<rparr>) =
        Inr \<lparr>video = \<lparr>c_deviceId = (case deviceId conf of
                                      None \<Rightarrow> None
                                    | Some d \<Rightarrow> if d = [] then None else Some (Exact d)),
                       c_width = Some (Exact wd), c_height = Some (Exact ht)\<rparr>,
             audio = (enableAudio conf = Some True)\<rparr>)"
proof (intro conjI impI)
  assume h: "preferredResolutions conf = Several (pre @ r # post) \<and>
      (\<forall>c\<in>set pre. isl (attempt p conf c)) \<and> attempt p conf r = Inr ts"
  then have "tryResolutions p conf (pre @ r # post) None w =
      (Inr (newStream (nextTrackId w) ts, r),
       w\<lparr>gumCalls := gumCalls w @ requests conf (pre @ [r]),
         liveTracks := liveTracks w \<union> {nextTrackId w ..< nextTrackId w + length ts},
         nextTrackId := nextTrackId w + length ts\<rparr>)"
    by (simp add: tryResolutions_failed_prefix tryResolutions_success requests_append
             del: tryResolutions.simps)
  with h show "startStream p conf st w =
        (Inr \<lparr>StartResult.stream = newStream (nextTrackId w) ts, usedResolution = Some r\<rparr>,
         st\<lparr>Stream.activeStream := Some (newStream (nextTrackId w) ts)\<rparr>,
         w\<lparr>gumCalls := gumCalls w @ requests conf (pre @ [r]),
           liveTracks := liveTracks w \<union> {nextTrackId w ..< nextTrackId w + length ts},
           nextTrackId := nextTrackId w + length ts\<rparr>)"
    by (simp add: startStream_def)
next
  assume h: "preferredResolutions conf = Several (pre @ [r]) \<and>
      (\<forall>c\<in>set pre. isl (attempt p conf c)) \<and> attempt p conf r = Inl e"
  then have all: "\<forall>c\<in>set (pre @ [r]). isl (attempt p conf c)"
    by simp
  have "tryResolutions p conf ((pre @ [r]) @ []) None w =
      (Inl (Some (asError e)), w\<lparr>gumCalls := gumCalls w @ requests conf (pre @ [r])\<rparr>)"
    using h by (subst tryResolutions_failed_prefix [OF all]) simp
  with h show "startStream p conf st w =
        (Inl (handleStartError (asError e)), st,
         w\<lparr>gumCalls := gumCalls w @ requests conf (pre @ [r])\<rparr>)"
    by (simp add: startStream_def)
next
  assume "preferredResolutions conf = Several []"
  then show "startStream p conf st w =
        (Inl (handleStartError (JsError ''Error'' ''No resolution worked'')), st, w)"
    by (simp add: startStream_def)
next
  assume "Resolution.width r = Some wd \<and> Resolution.height r = Some ht \<and> wd \<noteq> 0 \<and> ht \<noteq> 0"
  then show "buildConstraints (conf\<lparr>preferredResolutions := Single r\<rparr>) =
        Inr \<lparr>video = \<lparr>c_deviceId = (case deviceId conf of
                                      None \<Rightarrow> None
                                    | Some d \<Rightarrow> if d = [] then None else Some (Exact d)),
                       c_width = Some (Exact wd), c_height = Some (Exact ht)\<rparr>,
             audio = (enableAudio conf = Some True)\<rparr>"
    by (auto simp: buildConstraints_single_valid falsy_def exactFor_def deviceConstraint_def
          audioFlag_def split: option.splits)
qed

theorem startStream_list_order_witness:
  "startStream only720 (noConfig\<lparr>preferredResolutions := Several [S720, HD, FHD]\<rparr>)
     \<lparr>Stream.activeStream = None\<rparr> emptyWorld =
     (Inr \<lparr>StartResult.stream = \<lparr>tracks = [hdTrack]\<rparr>, usedResolution = Some HD\<rparr>,
      \<lparr>Stream.activeStream = Some \<lparr>tracks = [hdTrack]\<rparr>\<rparr>,
      \<lparr>gumCalls =
         [\<lparr>video = \<lparr>c_deviceId = None, c_width = Some (Exact 720),
                     c_height = Some (Exact 720)\<rparr>, audio = False\<rparr>,
          \<lparr>video = \<lparr>c_deviceId = None, c_width = Some (Exact 1280),
                     c_height = Some (Exact 720)\<rparr>, audio = False\<rparr>],
       applyCalls = [], liveTracks = {0}, nextTrackId = 1\<rparr>)
   \<and> startStream only720 (noConfig\<lparr>preferredResolutions := Several [S720, FHD]\<rparr>)
     \<lparr>Stream.activeStream = None\<rparr> emptyWorld =
     (Inl (WebcamError ''Camera constraints not satisfied'' OVERCONSTRAINED
             (Some overconstrained)),
      \<lparr>Stream.activeStream = None\<rparr>,
      \<lparr>gumCalls =
         [\<lparr>video = \<lparr>c_deviceId = None, c_width = Some (Exact 720),
                     c_height = Some (Exact 720)\<rparr>, audio = False\<rparr>,
          \<lparr>video = \<lparr>c_deviceId = None, c_width = Some (Exact 1920),
                     c_height = Some (Exact 1080)\<rparr>, audio = False\<rparr>],
       applyCalls = [], liveTracks = {}, nextTrackId = 0\<rparr>)
   \<and> startStream only720 (noConfig\<lparr>preferredResolutions := Several []\<rparr>)
     \<lparr>Stream.activeStream = None\<rparr> emptyWorld =
     (Inl (WebcamError ''Failed to start camera'' UNKNOWN_ERROR
             (Some (JsError ''Error'' ''No resolution worked''))),
      \<lparr>Stream.activeStream = None\<rparr>, emptyWorld)
   \<and> buildConstraints (noConfig\<lparr>deviceId := Some ''cam1'',
                                  preferredResolutions := Single HD\<rparr>) =
     Inr \<lparr>video = \<lparr>c_deviceId = Some (Exact ''cam1''), c_width = Some (Exact 1280),
                    c_height = Some (Exact 720)\<rparr>, audio = False\<rparr>"
  using
    startStream_list_order
      [of "noConfig\<lparr>preferredResolutions := Several [S720, HD, FHD]\<rparr>" "[S720]" HD "[FHD]"
          only720 "[hdTrack]" "\<lparr>Stream.activeStream = None\<rparr>" emptyWorld]
    startStream_list_order
      [of "noConfig\<lparr>preferredResolutions := Several [S720, FHD]\<rparr>" "[S720]" FHD "[]"
          only720 "[]" "\<lparr>Stream.activeStream = None\<rparr>" emptyWorld overconstrained]
    startStream_list_order
      [of "noConfig\<lparr>preferredResolutions := Several []\<rparr>" "[]" HD "[]"
          only720 "[]" "\<lparr>Stream.activeStream = None\<rparr>" emptyWorld]
    startStream_list_order
      [of "noConfig\<lparr>deviceId := Some ''cam1''\<rparr>" "[]" HD "[]"
          only720 "[]" "\<lparr>Stream.activeStream = None\<rparr>" emptyWorld overconstrained 1280 720]
  by (simp add: scenario_defs stream_defs)

theorem startStream_last_error_counterexample:
  "attempt only720 (noConfig\<lparr>preferredResolutions := Several [FHD]\<rparr>) FHD =
     Inl overconstrained
   \<and> fst (startStream only720 (noConfig\<lparr>preferredResolutions := Several [FHD]\<rparr>)
           \<lparr>Stream.activeStream = None\<rparr> emptyWorld) =
     Inl (WebcamError ''Camera constraints not satisfied'' OVERCONSTRAINED
            (Some overconstrained))
   \<and> fst (startStream only720 (noConfig\<lparr>preferredResolutions := Several [FHD]\<rparr>)
           \<lparr>Stream.activeStream = None\<rparr> emptyWorld) \<noteq> Inl overconstrained"
  by (simp add: startStream_def scenario_defs stream_defs)

section \<open>Acquisition: invalid, single and absent resolutions\<close>

lemma tryResolutions_nonempty_lastError:
  "rs \<noteq> [] \<Longrightarrow> tryResolutions p conf rs le w = tryResolutions p conf rs le' w"
  by (cases rs) (simp_all split: sum.splits prod.splits)

lemma tryResolutions_drop_invalid:
  "falsy (Resolution.width r) \<or> falsy (Resolution.height r) \<Longrightarrow> rest \<noteq> [] \<Longrightarrow>
   tryResolutions p conf (pre @ r # rest) le w = tryResolutions p conf (pre @ rest) le w"
proof (induction pre arbitrary: le w)
  case Nil
  then show ?case
    using tryResolutions_nonempty_lastError [of rest p conf "Some (asError invalidResolutionError)" w le]
    by (simp add: buildConstraints_single_invalid)
next
  case (Cons a pre)
  then show ?case
    by (simp split: sum.splits prod.splits)
qed

text \<open>
  C10. A resolution whose width or height is missing or zero makes constraint building
  throw a WebcamError with code INVALID_CONFIG, whether it is the single resolution of
  the configuration or a member of its array. On the single-resolution path
  \<^verbatim>\<open>startStream\<close> then rejects with the platform untouched: no \<^verbatim>\<open>getUserMedia\<close>
  call is made (the rejection is the start error wrapping the INVALID_CONFIG error). On
  the array path the invalid candidate is skipped like any other failed candidate:
  with a candidate after it, acquisition runs exactly as if the invalid candidate were
  not in the array.
\<close>

theorem invalid_resolution_rejected:
  "falsy (Resolution.width r) \<or> falsy (Resolution.height r) \<longrightarrow>
     buildConstraints (conf\<lparr>preferredResolutions := Single r\<rparr>) =
       Inl (WebcamError ''Invalid resolution: width and height must be specified''
              INVALID_CONFIG None)
     \<and> (r \<in> set rs \<longrightarrow>
          buildConstraints (conf\<lparr>preferredResolutions := Several rs\<rparr>) =
            Inl (WebcamError ''Invalid resolution: width and height must be specified''
                   INVALID_CONFIG None))
     \<and> startStream p (conf\<lparr>preferredResolutions := Single r\<rparr>) st w =
         (Inl (WebcamError ''Failed to start camera'' UNKNOWN_ERROR
                 (Some (WebcamError ''Invalid resolution: width and height must be specified''
                          INVALID_CONFIG None))), st, w)
     \<and> (rest \<noteq> [] \<longrightarrow>
          startStream p (conf\<lparr>preferredResolutions := Several (pre @ r # rest)\<rparr>) st w =
          startStream p (conf\<lparr>preferredResolutions := Several (pre @ rest)\<rparr>) st w)
     \<and> startStream p (conf\<lparr>preferredResolutions := Several (r # rest)\<rparr>) st w =
         (if rest = []
          then (Inl (WebcamError ''Failed to start camera'' UNKNOWN_ERROR
                       (Some (WebcamError
                                ''Invalid resolution: width and height must be specified''
                                INVALID_CONFIG None))), st, w)
          else startStream p (conf\<lparr>preferredResolutions := Several rest\<rparr>) st w)"
proof (intro impI conjI)
  assume bad: "falsy (Resolution.width r) \<or> falsy (Resolution.height r)"
  show "buildConstraints (conf\<lparr>preferredResolutions := Single r\<rparr>) =
       Inl (WebcamError ''Invalid resolution: width and height must be specified''
              INVALID_CONFIG None)"
    using buildConstraints_single_invalid [OF bad] by (simp add: invalidResolutionError_def)
  show "buildConstraints (conf\<lparr>preferredResolutions := Several rs\<rparr>) =
            Inl (WebcamError ''Invalid resolution: width and height must be specified''
                   INVALID_CONFIG None)" if "r \<in> set rs"
    using validateResolutions_member [OF that bad]
    by (simp add: buildConstraints_def invalidResolutionError_def)
  show "startStream p (conf\<lparr>preferredResolutions := Single r\<rparr>) st w =
         (Inl (WebcamError ''Failed to start camera'' UNKNOWN_ERROR
                 (Some (WebcamError ''Invalid resolution: width and height must be specified''
                          INVALID_CONFIG None))), st, w)"
    using buildConstraints_single_invalid [OF bad, of conf]
    by (simp add: startStream_def invalidResolutionError_def handleStartError_def)
  show "startStream p (conf\<lparr>preferredResolutions := Several (pre @ r # rest)\<rparr>) st w =
          startStream p (conf\<lparr>preferredResolutions := Several (pre @ rest)\<rparr>) st w"
    if "rest \<noteq> []"
    using tryResolutions_drop_invalid [OF bad that]
    by (simp add: startStream_def tryResolutions_config del: tryResolutions.simps)
  show "startStream p (conf\<lparr>preferredResolutions := Several (r # rest)\<rparr>) st w =
         (if rest = []
          then (Inl (WebcamError ''Failed to start camera'' UNKNOWN_ERROR
                       (Some (WebcamError
                                ''Invalid resolution: width and height must be specified''
                                INVALID_CONFIG None))), st, w)
          else startStream p (conf\<lparr>preferredResolutions := Several rest\<rparr>) st w)"
  proof (cases "rest = []")
    case True
    then show ?thesis
      using buildConstraints_single_invalid [OF bad, of conf]
      by (simp add: startStream_def tryResolutions_config invalidResolutionError_def
            handleStartError_def asError_def)
  next
    case False
    then show ?thesis
      using tryResolutions_drop_invalid [OF bad False, of p conf "[]"]
      by (simp add: startStream_def tryResolutions_config del: tryResolutions.simps)
  qed
qed

theorem invalid_resolution_rejected_witness:
  "falsy (Resolution.width zeroWidth)
   \<and> buildConstraints (noConfig\<lparr>preferredResolutions := Single zeroWidth\<rparr>) =
       Inl (WebcamError ''Invalid resolution: width and height must be specified''
              INVALID_CONFIG None)
   \<and> gumCalls (snd (snd (startStream only720 (noConfig\<lparr>preferredResolutions := Single zeroWidth\<rparr>)
        \<lparr>Stream.activeStream = None\<rparr> emptyWorld))) = []
   \<and> fst (startStream only720 (noConfig\<lparr>preferredResolutions := Several [zeroWidth, HD]\<rparr>)
        \<lparr>Stream.activeStream = None\<rparr> emptyWorld) =
       Inr \<lparr>StartResult.stream = \<lparr>tracks = [hdTrack]\<rparr>, usedResolution = Some HD\<rparr>"
proof -
  have bad: "falsy (Resolution.width zeroWidth) \<or> falsy (Resolution.height zeroWidth)"
    by (simp add: falsy_def zeroWidth_def)
  have "fst (startStream only720 (noConfig\<lparr>preferredResolutions := Several [HD]\<rparr>)
        \<lparr>Stream.activeStream = None\<rparr> emptyWorld) =
       Inr \<lparr>StartResult.stream = \<lparr>tracks = [hdTrack]\<rparr>, usedResolution = Some HD\<rparr>"
    by (simp add: startStream_def scenario_defs stream_defs)
  then show ?thesis
    using bad
      invalid_resolution_rejected
        [of zeroWidth noConfig "[]" only720 "\<lparr>Stream.activeStream = None\<rparr>" emptyWorld "[HD]" "[]"]
    by (simp add: emptyWorld_def falsy_def zeroWidth_def)
qed

text \<open>
  C7 (as amended). When no resolution is configured, \<^verbatim>\<open>startStream\<close> makes exactly one
  \<^verbatim>\<open>getUserMedia\<close> call, with ideal width 1280 and ideal height 720. When a single
  resolution with non-zero width and height is configured, it makes exactly one call,
  with the exact (not ideal) width and height of that resolution. In both cases the
  device id, when a non-empty one is configured, is exact.
\<close>

theorem single_or_absent_attempt:
  "(preferredResolutions conf = Unspecified \<longrightarrow>
      gumCalls (snd (snd (startStream p conf st w))) =
        gumCalls w @
        [\<lparr>video = \<lparr>c_deviceId = (case deviceId conf of
                                    None \<Rightarrow> None
                                  | Some d \<Rightarrow> if d = [] then None else Some (Exact d)),
                    c_width = Some (Ideal 1280), c_height = Some (Ideal 720)\<rparr>,
          audio = (enableAudio conf = Some True)\<rparr>])
   \<and> (preferredResolutions conf = Single r \<and> Resolution.width r = Some wd \<and>
        Resolution.height r = Some ht \<and> wd \<noteq> 0 \<and> ht \<noteq> 0 \<longrightarrow>
      gumCalls (snd (snd (startStream p conf st w))) =
        gumCalls w @
        [\<lparr>video = \<lparr>c_deviceId = (case deviceId conf of
                                    None \<Rightarrow> None
                                  | Some d \<Rightarrow> if d = [] then None else Some (Exact d)),
                    c_width = Some (Exact wd), c_height = Some (Exact ht)\<rparr>,
          audio = (enableAudio conf = Some True)\<rparr>])"
  by (auto simp: startStream_def stream_defs split: sum.splits option.splits)

theorem single_or_absent_attempt_witness:
  "gumCalls (snd (snd (startStream only720 noConfig \<lparr>Stream.activeStream = None\<rparr> emptyWorld))) =
     [\<lparr>video = \<lparr>c_deviceId = None, c_width = Some (Ideal 1280), c_height = Some (Ideal 720)\<rparr>,
       audio = False\<rparr>]
   \<and> gumCalls (snd (snd (startStream only720 (noConfig\<lparr>preferredResolutions := Single FHD\<rparr>)
       \<lparr>Stream.activeStream = None\<rparr> emptyWorld))) =
     [\<lparr>video = \<lparr>c_deviceId = None, c_width = Some (Exact 1920), c_height = Some (Exact 1080)\<rparr>,
       audio = False\<rparr>]"
  using
    single_or_absent_attempt [of noConfig only720 "\<lparr>Stream.activeStream = None\<rparr>" emptyWorld]
    single_or_absent_attempt
      [of "noConfig\<lparr>preferredResolutions := Single FHD\<rparr>" only720
          "\<lparr>Stream.activeStream = None\<rparr>" emptyWorld FHD 1920 1080]
  by (simp add: noConfig_def FHD_def emptyWorld_def)

theorem single_resolution_exact_counterexample:
  "startStream only720 (noConfig\<lparr>preferredResolutions := Single HD\<rparr>)
     \<lparr>Stream.activeStream = None\<rparr> emptyWorld =
     (Inr \<lparr>StartResult.stream = \<lparr>tracks = [hdTrack]\<rparr>, usedResolution = Some HD\<rparr>,
      \<lparr>Stream.activeStream = Some \<lparr>tracks = [hdTrack]\<rparr>\<rparr>,
      \<lparr>gumCalls =
         [\<lparr>video = \<lparr>c_deviceId = None, c_width = Some (Exact 1280),
                     c_height = Some (Exact 720)\<rparr>, audio = False\<rparr>],
       applyCalls = [], liveTracks = {0}, nextTrackId = 1\<rparr>)
   \<and> fst (startStream only720 (noConfig\<lparr>preferredResolutions := Single FHD\<rparr>)
     \<lparr>Stream.activeStream = None\<rparr> emptyWorld) =
     Inl (WebcamError ''Camera constraints not satisfied'' OVERCONSTRAINED
            (Some overconstrained))"
  by (simp add: startStream_def scenario_defs stream_defs)

section \<open>Session transitions\<close>






















lemma collapse3: "fst t = a \<Longrightarrow> t = (a, fst (snd t), snd (snd t))"
  by (cases t) auto



section \<open>Zoom and the resolution label\<close>

text \<open>
  C5 (as amended). For every zoom below 1, \<^verbatim>\<open>setZoom\<close> rejects with an
  INVALID_CONFIG error and leaves the session and the platform as they were: nothing is
  applied. For a zoom of at least 1, with an active video track whose platform call
  accepts the value, the call is made once on that track and the zoom of the state
  becomes that value (with a state change notification). For a zoom of at least 1 for
  which applying the constraint fails (no active stream, no video track, or a platform
  rejection), \<^verbatim>\<open>setZoom\<close> rejects with a WebcamError and the session is unchanged.
\<close>

theorem setZoom_guard:
  "(zoom < 1 \<longrightarrow>
      setZoom p zoom wc w =
        (Some (WebcamError ''Zoom level must be greater than or equal to 1''
                 INVALID_CONFIG None), wc, w))
   \<and> (1 \<le> zoom \<and> Stream.activeStream (Webcam.stream wc) = Some s \<and>
        getVideoTracks s = t # ts \<and> applyTrack p t (ZoomPatch zoom) = None \<longrightarrow>
      setZoom p zoom wc w =
        (None,
         notifyStateChange (wc\<lparr>state := (state wc)\<lparr>zoomLevel := Some zoom\<rparr>\<rparr>),
         w\<lparr>applyCalls := applyCalls w @ [(trackId t, ZoomPatch zoom)]\<rparr>))
   \<and> (1 \<le> zoom \<and> fst (applyConstraints p (ZoomPatch zoom) (Webcam.stream wc) w) \<noteq> None \<longrightarrow>
      fst (setZoom p zoom wc w) \<noteq> None \<and>
      isWebcamError (the (fst (setZoom p zoom wc w))) \<and>
      fst (snd (setZoom p zoom wc w)) = wc)"
  by (auto simp: setZoom_def applyConstraints_def firstVideoTrack_def Let_def
        split: option.splits list.splits prod.splits)

theorem setZoom_guard_witness:
  "setZoom only720 (1 / 2) (fst (snd session1)) (snd (snd session1)) =
     (Some (WebcamError ''Zoom level must be greater than or equal to 1'' INVALID_CONFIG None),
      fst (snd session1), snd (snd session1))
   \<and> fst (setZoom only720 2 (fst (snd session1)) (snd (snd session1))) = None
   \<and> zoomLevel (state (fst (snd (setZoom only720 2 (fst (snd session1)) (snd (snd session1))))))
       = Some 2
   \<and> applyCalls (snd (snd (setZoom only720 2 (fst (snd session1)) (snd (snd session1)))))
       = [(0, ZoomPatch 2)]
   \<and> fst (setZoom only720 9 (fst (snd session1)) (snd (snd session1))) \<noteq> None
   \<and> fst (snd (setZoom only720 9 (fst (snd session1)) (snd (snd session1)))) = fst (snd session1)"
proof -
  have a1: "Stream.activeStream (Webcam.stream (fst (snd session1))) = Some \<lparr>tracks = [hdTrack]\<rparr>"
    and c1: "applyCalls (snd (snd session1)) = []"
    by (simp_all add: session_defs eval_defs)
  have v: "getVideoTracks \<lparr>tracks = [hdTrack]\<rparr> = hdTrack # []"
    by (simp add: getVideoTracks_def hdTrack_def)
  have ok: "applyTrack only720 hdTrack (ZoomPatch 2) = None"
    by (simp add: only720_def)
  have bad: "fst (applyConstraints only720 (ZoomPatch 9) (Webcam.stream (fst (snd session1)))
               (snd (snd session1))) \<noteq> None"
    by (simp add: applyConstraints_def a1 firstVideoTrack_def v only720_def Let_def)
  have low: "setZoom only720 (1 / 2) (fst (snd session1)) (snd (snd session1)) =
     (Some (WebcamError ''Zoom level must be greater than or equal to 1'' INVALID_CONFIG None),
      fst (snd session1), snd (snd session1))"
    using setZoom_guard [of "1 / 2" only720 "fst (snd session1)" "snd (snd session1)"]
    by simp
  have two: "setZoom only720 2 (fst (snd session1)) (snd (snd session1)) =
        (None,
         notifyStateChange ((fst (snd session1))
           \<lparr>state := (state (fst (snd session1)))\<lparr>zoomLevel := Some 2\<rparr>\<rparr>),
         (snd (snd session1))
           \<lparr>applyCalls := applyCalls (snd (snd session1)) @ [(trackId hdTrack, ZoomPatch 2)]\<rparr>)"
    using setZoom_guard [of 2 only720 "fst (snd session1)" "snd (snd session1)"
                            "\<lparr>tracks = [hdTrack]\<rparr>" hdTrack "[]"] a1 v ok
    by simp
  have nine: "fst (setZoom only720 9 (fst (snd session1)) (snd (snd session1))) \<noteq> None \<and>
      fst (snd (setZoom only720 9 (fst (snd session1)) (snd (snd session1)))) = fst (snd session1)"
    using setZoom_guard [of 9 only720 "fst (snd session1)" "snd (snd session1)"] bad
    by simp
  from low two nine c1 show ?thesis
    by (simp add: notifyStateChange_def hdTrack_def)
qed

theorem setZoom_idle_counterexample:
  "setZoom only720 2 (freshWebcam None) emptyWorld =
     (Some (WebcamError ''No active stream to apply constraints'' STREAM_ERROR None),
      freshWebcam None, emptyWorld)
   \<and> zoomLevel (state (freshWebcam None)) = None
   \<and> applyCalls emptyWorld = []"
  by (simp add: setZoom_def applyConstraints_def freshWebcam_def initialState_def emptyWorld_def)

text \<open>
  C2 (the code at the example of the claim). With the resolutions S720 (720 by 720) and
  HD (1280 by 720) on a camera that delivers 1280 by 720 only, \<^verbatim>\<open>startStream\<close> reports
  HD, with its label, as the resolution used. A session without a video element starts;
  afterwards \<^verbatim>\<open>activeResolution\<close> of the state is still unset, the resolution with its
  label sits inside the object stored as \<^verbatim>\<open>activeStream\<close>, and
  \<^verbatim>\<open>getCurrentResolution\<close> throws a TypeError instead of returning a label. With a
  video element in a browser \<^verbatim>\<open>start\<close> itself rejects, and with a stand-in element
  that stores any value it resolves with the same state.
\<close>

theorem label_not_recorded:
  "fst (startStream browser720 listConfig \<lparr>Stream.activeStream = None\<rparr> emptyWorld) =
     Inr hdResult
   \<and> usedResolution hdResult = Some HD
   \<and> label HD = ''HD''
   \<and> fst headlessSession = None
   \<and> status (state (fst (snd headlessSession))) = Ready
   \<and> WebcamStateInternal.activeStream (state (fst (snd headlessSession))) = Some hdResult
   \<and> activeResolution (state (fst (snd headlessSession))) = None
   \<and> getCurrentResolution (fst (snd headlessSession)) =
       Inl (JsError ''TypeError''
              ''this.state.activeStream.getVideoTracks is not a function'')
   \<and> fst browserSession = Some (WebcamError ''Start failed'' UNKNOWN_ERROR (Some notAStream))
   \<and> activeResolution (state (fst (snd browserSession))) = None
   \<and> fst session1 = None
   \<and> activeResolution (state (fst (snd session1))) = None
   \<and> getCurrentResolution (fst (snd session1)) =
       Inl (JsError ''TypeError''
              ''this.state.activeStream.getVideoTracks is not a function'')"
  by (simp add: session_defs eval_defs getCurrentResolution_def)

section \<open>Capture: output size and the pooled buffer\<close>

lemmas capture_defs =
  captureImageData_def captureImage_def captureImageBitmap_def drawFrame_def readPixels_def
  paint_def resizeIfChanged_def resizeCanvas_def targetSize_def
  scaleOf_def mirrorOf_def sourceWidth_def sourceHeight_def getContext_def createCanvas_def
  identityTransform_def disposeCapture_def notReadyError_def drawFailed_def nullContextError_def
  blobFailed_def bitmapFailed_def

lemmas capture_scenario_defs =
  okCanvas_def playingVideo_def laterVideo_def noOptions_def halfScale_def croppedTriple_def
  mirrored_def freshCapture_def emptyDom_def

lemma tenth_below_two: "tenth < 2"
  by (simp add: tenth_def)

lemma scaleOf_clamped: "scaleOf options = clampedScale (scale options)"
  using tenth_below_two by (auto simp: scaleOf_def clampedScale_def split: option.splits)

lemma targetSize_rounded:
  "multiply cp = doubleProduct \<Longrightarrow> targetSize cp v options = roundedSize v options"
  by (simp add: targetSize_def roundedSize_def doubleProduct_def sourceWidth_def
        sourceHeight_def scaleOf_clamped split: option.splits)

lemma captureImageData_size:
  "captureImageData cp v options c d = (Inr r, c', d') \<Longrightarrow>
   (CaptureImageDataResult.width r, CaptureImageDataResult.height r) = targetSize cp v options"
  by (auto simp: captureImageData_def Let_def
        split: if_splits prod.splits option.splits sum.splits)

lemma captureImage_size:
  "captureImage cp v options c d = (Inr r, c', d') \<Longrightarrow>
   (CaptureImageResult.width r, CaptureImageResult.height r) = targetSize cp v options"
  by (auto simp: captureImage_def Let_def split: if_splits prod.splits option.splits)

lemma captureImageBitmap_size:
  "captureImageBitmap cp v options c d = (Inr r, c', d') \<Longrightarrow>
   (CaptureImageBitmapResult.width r, CaptureImageBitmapResult.height r) =
   targetSize cp v options"
  by (auto simp: captureImageBitmap_def Let_def split: if_splits prod.splits option.splits)

text \<open>
  C4 (as amended). On a machine whose product is the floating point one, and for
  products below the largest finite number: whenever \<^verbatim>\<open>captureImageData\<close>,
  \<^verbatim>\<open>captureImage\<close> or \<^verbatim>\<open>captureImageBitmap\<close> returns a result, the width and height
  of the result are the floor of the floating point product of source dimension and
  scale, where the source dimension is the size of the crop region when a crop is given
  and the size of the video frame otherwise, and the scale is the requested one between
  the numbers written 0.1 and 2, the nearer of the two outside, and 1 when none is
  requested.
\<close>

theorem capture_output_size:
  "multiply cp = doubleProduct \<and> finiteProducts v options \<longrightarrow>
   (captureImageData cp v options c d = (Inr r1, c1, d1) \<longrightarrow>
      (CaptureImageDataResult.width r1, CaptureImageDataResult.height r1) =
        roundedSize v options)
   \<and> (captureImage cp v options c d = (Inr r2, c2, d2) \<longrightarrow>
      (CaptureImageResult.width r2, CaptureImageResult.height r2) = roundedSize v options)
   \<and> (captureImageBitmap cp v options c d = (Inr r3, c3, d3) \<longrightarrow>
      (CaptureImageBitmapResult.width r3, CaptureImageBitmapResult.height r3) =
        roundedSize v options)"
  using captureImageData_size [of cp v options c d r1 c1 d1]
    captureImage_size [of cp v options c d r2 c2 d2]
    captureImageBitmap_size [of cp v options c d r3 c3 d3]
    targetSize_rounded [of cp v options]
  by (cases "multiply cp = doubleProduct") simp_all

lemma spacing_eval:
  assumes "u \<noteq> 0" and "2 powr of_int k \<le> \<bar>u\<bar>" and "\<bar>u\<bar> < 2 powr of_int (k + 1)"
    and "- 1022 \<le> k"
  shows "spacing u = 2 powr (of_int k - 52)"
proof -
  have "\<lfloor>log 2 \<bar>u\<bar>\<rfloor> = k"
    using floor_log_eq_powr_iff [of "\<bar>u\<bar>" 2 k] assms by simp
  with assms(4) show ?thesis
    by (simp add: spacing_def)
qed

lemma product_1280: "binary64 (1280 * sevenTenths) = 896"
proof -
  have u: "1280 * sevenTenths = 15762598695796735 / 17592186044416"
    by (simp add: sevenTenths_def)
  have sp: "spacing (15762598695796735 / 17592186044416) = 1 / 2 ^ 43"
    using spacing_eval [of "15762598695796735 / 17592186044416" 9]
    by (simp add: powr_minus_divide)
  show ?thesis
    unfolding u by (simp add: binary64_def sp roundEven_def)
qed

lemma product_720: "\<lfloor>binary64 (720 * sevenTenths)\<rfloor> = 503"
proof -
  have u: "720 * sevenTenths = 141863388262170615 / 281474976710656"
    by (simp add: sevenTenths_def)
  have sp: "spacing (141863388262170615 / 281474976710656) = 1 / 2 ^ 44"
    using spacing_eval [of "141863388262170615 / 281474976710656" 8]
    by (simp add: powr_minus_divide)
  show ?thesis
    unfolding u by (simp add: binary64_def sp roundEven_def)
qed

lemma exact_products:
  "binary64 1280 = 1280" "binary64 720 = 720" "binary64 640 = 640" "binary64 360 = 360"
  "binary64 400 = 400" "binary64 200 = 200"
proof -
  have sp: "spacing 1280 = 1 / 2 ^ 42" "spacing 720 = 1 / 2 ^ 43" "spacing 640 = 1 / 2 ^ 43"
    "spacing 360 = 1 / 2 ^ 44" "spacing 400 = 1 / 2 ^ 44" "spacing 200 = 1 / 2 ^ 45"
    using spacing_eval [of 1280 10] spacing_eval [of 720 9] spacing_eval [of 640 9]
      spacing_eval [of 360 8] spacing_eval [of 400 8] spacing_eval [of 200 7]
    by (simp_all add: powr_minus_divide)
  show "binary64 1280 = 1280" "binary64 720 = 720" "binary64 640 = 640"
    "binary64 360 = 360" "binary64 400 = 400" "binary64 200 = 200"
    by (simp_all add: binary64_def roundEven_def sp)
qed

lemma scaled07_facts:
  "scaleOf scaled07 = sevenTenths" "mirrorOf scaled07 = False"
  "imageType scaled07 = None" "includeBase64 scaled07 = None" "crop scaled07 = None"
  "scale scaled07 = Some sevenTenths"
  by (simp_all add: scaleOf_def mirrorOf_def scaled07_def noOptions_def tenth_def
        sevenTenths_def)

lemma targetSize_07: "targetSize ieeeCanvas playingVideo scaled07 = (896, 503)"
  by (simp add: targetSize_def scaled07_facts ieeeCanvas_def okCanvas_def doubleProduct_def
        sourceWidth_def sourceHeight_def playingVideo_def product_1280 product_720)

lemma playing_facts:
  "readyState playingVideo = 4" "currentFrame playingVideo = 1"
  "videoWidth playingVideo = 1280" "videoHeight playingVideo = 720"
  by (simp_all add: playingVideo_def)

lemma ieeeCanvas_facts:
  "multiply ieeeCanvas = doubleProduct" "getContextOk ieeeCanvas" "drawImage ieeeCanvas = None"
  "getImageData ieeeCanvas = (\<lambda>w h. None)" "toBlobOk ieeeCanvas"
  "readAsDataURL ieeeCanvas = None" "createImageBitmap ieeeCanvas = None"
  by (simp_all add: ieeeCanvas_def okCanvas_def)

lemma capture07_result:
  "fst (captureImageData ieeeCanvas playingVideo scaled07 freshCapture emptyDom) =
     Inr \<lparr>imageData = \<lparr>bufferId = 0, ImageData.width = 896, ImageData.height = 503\<rparr>,
          CaptureImageDataResult.width = 896, CaptureImageDataResult.height = 503\<rparr>"
  "fst (captureImage ieeeCanvas playingVideo scaled07 freshCapture emptyDom) =
     Inr \<lparr>blob = 0, url = 1, base64 = Some 2, CaptureImageResult.width = 896,
          CaptureImageResult.height = 503, mimeType = ''image/jpeg''\<rparr>"
  "fst (captureImageBitmap ieeeCanvas playingVideo scaled07 freshCapture emptyDom) =
     Inr \<lparr>imageBitmap = 0, CaptureImageBitmapResult.width = 896,
          CaptureImageBitmapResult.height = 503\<rparr>"
  by (simp_all add: captureImageData_def captureImage_def captureImageBitmap_def Let_def
        targetSize_07 scaled07_facts ieeeCanvas_facts drawFrame_def readPixels_def paint_def
        resizeIfChanged_def resizeCanvas_def freshCapture_def createCanvas_def
        identityTransform_def emptyDom_def sevenTenths_def playing_facts)

lemma cropped_result:
  "fst (captureImageBitmap ieeeCanvas playingVideo croppedTriple freshCapture emptyDom) =
     Inr \<lparr>imageBitmap = 0, CaptureImageBitmapResult.width = 400,
          CaptureImageBitmapResult.height = 200\<rparr>"
  by (simp add: captureImageBitmap_def Let_def targetSize_def scaleOf_def mirrorOf_def
        sourceWidth_def sourceHeight_def croppedTriple_def noOptions_def tenth_def
        ieeeCanvas_facts doubleProduct_def exact_products playing_facts getContext_def
        createCanvas_def paint_def freshCapture_def emptyDom_def)

lemma cropped_finite: "finiteProducts playingVideo croppedTriple"
  by (simp add: finiteProducts_def scaleOf_def sourceWidth_def sourceHeight_def
        croppedTriple_def noOptions_def tenth_def)

theorem capture_output_size_witness:
  "multiply ieeeCanvas = doubleProduct
   \<and> finiteProducts playingVideo scaled07
   \<and> fst (captureImageData ieeeCanvas playingVideo scaled07 freshCapture emptyDom) =
       Inr \<lparr>imageData = \<lparr>bufferId = 0, ImageData.width = 896, ImageData.height = 503\<rparr>,
            CaptureImageDataResult.width = 896, CaptureImageDataResult.height = 503\<rparr>
   \<and> fst (captureImage ieeeCanvas playingVideo scaled07 freshCapture emptyDom) =
       Inr \<lparr>blob = 0, url = 1, base64 = Some 2, CaptureImageResult.width = 896,
            CaptureImageResult.height = 503, mimeType = ''image/jpeg''\<rparr>
   \<and> fst (captureImageBitmap ieeeCanvas playingVideo scaled07 freshCapture emptyDom) =
       Inr \<lparr>imageBitmap = 0, CaptureImageBitmapResult.width = 896,
            CaptureImageBitmapResult.height = 503\<rparr>
   \<and> roundedSize playingVideo scaled07 = (896, 503)
   \<and> finiteProducts playingVideo croppedTriple
   \<and> fst (captureImageBitmap ieeeCanvas playingVideo croppedTriple freshCapture emptyDom) =
       Inr \<lparr>imageBitmap = 0, CaptureImageBitmapResult.width = 400,
            CaptureImageBitmapResult.height = 200\<rparr>
   \<and> roundedSize playingVideo croppedTriple = (400, 200)"
proof -
  note r = capture07_result
  have fin: "finiteProducts playingVideo scaled07"
    by (simp add: finiteProducts_def scaled07_facts sourceWidth_def sourceHeight_def
          playing_facts sevenTenths_def)
  from capture_output_size
         [where cp = ieeeCanvas and v = playingVideo and options = scaled07
            and c = freshCapture and d = emptyDom
            and ?r1.0 = "projr (fst (captureImageData ieeeCanvas playingVideo scaled07
                                      freshCapture emptyDom))"
            and ?c1.0 = "fst (snd (captureImageData ieeeCanvas playingVideo scaled07
                                      freshCapture emptyDom))"
            and ?d1.0 = "snd (snd (captureImageData ieeeCanvas playingVideo scaled07
                                      freshCapture emptyDom))"]
       ieeeCanvas_facts(1) fin collapse3 [OF r(1)] r(1)
  have first: "roundedSize playingVideo scaled07 = (896, 503)"
    by simp
  from capture_output_size
         [where cp = ieeeCanvas and v = playingVideo and options = croppedTriple
            and c = freshCapture and d = emptyDom
            and ?r3.0 = "projr (fst (captureImageBitmap ieeeCanvas playingVideo croppedTriple
                                      freshCapture emptyDom))"
            and ?c3.0 = "fst (snd (captureImageBitmap ieeeCanvas playingVideo croppedTriple
                                      freshCapture emptyDom))"
            and ?d3.0 = "snd (snd (captureImageBitmap ieeeCanvas playingVideo croppedTriple
                                      freshCapture emptyDom))"]
       ieeeCanvas_facts(1) cropped_finite collapse3 [OF cropped_result] cropped_result
  have second: "roundedSize playingVideo croppedTriple = (400, 200)"
    by simp
  from r fin ieeeCanvas_facts(1) first second cropped_finite cropped_result show ?thesis
    by simp
qed

theorem capture_output_size_counterexample:
  "scale scaled07 = Some sevenTenths
   \<and> fst (captureImageData ieeeCanvas playingVideo scaled07 freshCapture emptyDom) =
       Inr \<lparr>imageData = \<lparr>bufferId = 0, ImageData.width = 896, ImageData.height = 503\<rparr>,
            CaptureImageDataResult.width = 896, CaptureImageDataResult.height = 503\<rparr>
   \<and> \<lfloor>real (videoWidth playingVideo) * sevenTenths\<rfloor> = 895
   \<and> \<lfloor>real (videoHeight playingVideo) * sevenTenths\<rfloor> = 503
   \<and> \<lfloor>real (videoWidth playingVideo) * (7 / 10)\<rfloor> = 896
   \<and> \<lfloor>real (videoHeight playingVideo) * (7 / 10)\<rfloor> = 504"
  by (simp add: capture07_result scaled07_facts playing_facts sevenTenths_def)

text \<open>
  C8 (the code on three captures in a row). The first capture, of the first frame at
  scale 1, returns a new buffer that shows the first frame. The second capture, of the
  second frame at the same scale, draws the second frame on the canvas and returns the
  same buffer object, which still shows the first frame: the read of the canvas made a
  new object, which shows the second frame and which the code drops. The third capture,
  at scale one half, returns another buffer, which shows the second frame.
\<close>

theorem pooled_buffer_stale:
  "fst capture1 =
     Inr \<lparr>imageData = \<lparr>bufferId = 0, ImageData.width = 1280, ImageData.height = 720\<rparr>,
          CaptureImageDataResult.width = 1280, CaptureImageDataResult.height = 720\<rparr>
   \<and> pixels (snd (snd capture1)) 0 = Some (currentFrame playingVideo)
   \<and> currentFrame playingVideo = 1
   \<and> currentFrame laterVideo = 2
   \<and> fst capture2 = fst capture1
   \<and> map_option painted (canvas (fst (snd capture2))) = Some (Some 2)
   \<and> pixels (snd (snd capture2)) 0 = Some 1
   \<and> nextObject (snd (snd capture1)) = 1
   \<and> nextObject (snd (snd capture2)) = 2
   \<and> pixels (snd (snd capture2)) 1 = Some 2
   \<and> fst capture3 =
       Inr \<lparr>imageData = \<lparr>bufferId = 2, ImageData.width = 640, ImageData.height = 360\<rparr>,
            CaptureImageDataResult.width = 640, CaptureImageDataResult.height = 360\<rparr>
   \<and> pixels (snd (snd capture3)) 2 = Some 2"
  by (simp add: capture3_def capture2_def capture1_def capture_defs capture_scenario_defs
        tenth_def Let_def)

section \<open>Dispose\<close>













end
